theory Spec2Isabelle
  imports Complex_Main "HOL-Library.Monad_Syntax"
begin

section \<open>JavaScript strings\<close>

text \<open>
  A JavaScript string is a sequence of UTF-16 code units; a code unit is modelled as a
  natural number, so \<open>length\<close> counts what \<^verbatim>\<open>.length\<close> counts. The literal
  \<^verbatim>\<open>'fail'\<close> of the source is written \<open>js ''fail''\<close>.
\<close>

type_synonym jsstring = "nat list"

definition js :: "string \<Rightarrow> jsstring" where
  "js s = map of_char s"

text \<open>\<^verbatim>\<open>\s\<close> of a regular expression and the characters \<^verbatim>\<open>trim()\<close> strips:
  WhiteSpace and LineTerminator of ECMAScript.\<close>

definition isWhiteSpace :: "nat \<Rightarrow> bool" where
  "isWhiteSpace c =
     (c = 9 \<or> c = 10 \<or> c = 11 \<or> c = 12 \<or> c = 13 \<or> c = 32 \<or> c = 160 \<or> c = 5760 \<or>
      (8192 \<le> c \<and> c \<le> 8202) \<or> c = 8232 \<or> c = 8233 \<or> c = 8239 \<or> c = 8287 \<or>
      c = 12288 \<or> c = 65279)"

definition isLineTerminator :: "nat \<Rightarrow> bool" where
  "isLineTerminator c = (c = 10 \<or> c = 13 \<or> c = 8232 \<or> c = 8233)"

text \<open>ASCII whitespace of the HTML standard: it separates the tokens of a class attribute.\<close>

definition isAsciiWhitespace :: "nat \<Rightarrow> bool" where
  "isAsciiWhitespace c = (c = 9 \<or> c = 10 \<or> c = 12 \<or> c = 13 \<or> c = 32)"

definition isDigit :: "nat \<Rightarrow> bool" where
  "isDigit c = (48 \<le> c \<and> c \<le> 57)"

definition asciiUpper :: "nat \<Rightarrow> nat" where
  "asciiUpper c = (if 97 \<le> c \<and> c \<le> 122 then c - 32 else c)"

definition trim :: "jsstring \<Rightarrow> jsstring" where
  "trim s = rev (dropWhile isWhiteSpace (rev (dropWhile isWhiteSpace s)))"

fun startsWith :: "jsstring \<Rightarrow> jsstring \<Rightarrow> bool" where
  "startsWith s [] = True"
| "startsWith [] (p # ps) = False"
| "startsWith (c # s) (p # ps) = (c = p \<and> startsWith s ps)"

text \<open>\<^verbatim>\<open>s.includes(p)\<close>.\<close>

fun js_includes :: "jsstring \<Rightarrow> jsstring \<Rightarrow> bool" where
  "js_includes [] p = (p = [])"
| "js_includes (c # s) p = (startsWith (c # s) p \<or> js_includes s p)"

text \<open>\<^verbatim>\<open>s.split('\n')[0]\<close>: the part of \<open>s\<close> before its first line feed.\<close>

definition firstLine :: "jsstring \<Rightarrow> jsstring" where
  "firstLine s = takeWhile (\<lambda>c. c \<noteq> 10) s"

text \<open>A number in a template literal, \<^verbatim>\<open>`${index + 1}`\<close>: its decimal digits.\<close>

fun numToString :: "nat \<Rightarrow> jsstring" where
  "numToString n = (if n < 10 then [48 + n] else numToString (n div 10) @ [48 + n mod 10])"

declare numToString.simps [simp del]

text \<open>
  \<^verbatim>\<open>parseInt\<close> on a capture of \<^verbatim>\<open>(\d+)\<close>, a string of one or more digits: the value
  of the decimal digits the string starts with. Numbers are exact here; the rounding of
  a count beyond \<open>2^53\<close> to a double is not modelled.
\<close>

definition parseInt :: "jsstring \<Rightarrow> nat" where
  "parseInt s = foldl (\<lambda>a c. 10 * a + (c - 48)) 0 (takeWhile isDigit s)"

section \<open>Numbers\<close>

text \<open>
  A JavaScript number is an IEEE double: a finite value, which is a rational, one of the
  two infinities, or NaN. The two zeros are not told apart: both are falsy and both
  print as \<^verbatim>\<open>0\<close>. The arithmetic on doubles rounds its results; it is not defined here
  but taken from the platform, as is the rounding of a decimal literal to a double.
\<close>

datatype number = Finite rat | PlusInfinity | MinusInfinity | NaN

text \<open>\<^verbatim>\<open>x || 0\<close> on a number: 0 for NaN (and for 0), \<open>x\<close> otherwise.\<close>

fun orZero :: "number \<Rightarrow> number" where
  "orZero NaN = Finite 0"
| "orZero x = x"

text \<open>\<^verbatim>\<open>x > b\<close> for a finite \<open>b\<close>; a comparison with NaN is false.\<close>

fun exceeds :: "number \<Rightarrow> rat \<Rightarrow> bool" where
  "exceeds (Finite x) b = (b < x)"
| "exceeds PlusInfinity b = True"
| "exceeds MinusInfinity b = False"
| "exceeds NaN b = False"

text \<open>
  The decimal literal that \<^verbatim>\<open>parseFloat\<close> reads at the start of a text of digits and
  dots only (what \<^verbatim>\<open>replace(/[^0-9.]/g, '')\<close> leaves): digits, then optionally a dot
  and digits; or a dot and at least one digit. Its exact value; \<open>None\<close> when the text
  does not start with such a literal, where \<^verbatim>\<open>parseFloat\<close> returns NaN.
\<close>

definition decimalPrefix :: "jsstring \<Rightarrow> rat option" where
  "decimalPrefix t =
     (let ip = takeWhile isDigit t;
          r = dropWhile isDigit t;
          fp = (case r of [] \<Rightarrow> [] | c # r' \<Rightarrow> if c = 46 then takeWhile isDigit r' else [])
      in if ip = [] \<and> fp = [] then None
         else Some (of_nat (foldl (\<lambda>a c. 10 * a + (c - 48)) 0 (ip @ fp)) /
                    of_nat (10 ^ length fp)))"

section \<open>Regular expressions\<close>

text \<open>
  The regular expressions of the source are sequences of the items below, matched as
  ECMAScript matches them: by backtracking, every item trying its alternatives in
  priority order (a greedy quantifier the longest run first, a lazy one the shortest).
  \<open>LitI\<close> and \<open>OptAltI\<close> are literals under the \<^verbatim>\<open>i\<close> flag: an ASCII letter of the
  pattern matches exactly its two ASCII cases. \<open>OptAlt [a, b]\<close> is \<^verbatim>\<open>(?:a|b)?\<close>,
  \<open>CapPlus P\<close> the capture group \<^verbatim>\<open>([P]+)\<close> and \<open>CapLazyStar P\<close> the capture group
  \<^verbatim>\<open>([P]*?)\<close>.
\<close>

datatype rx =
    Lit jsstring
  | LitI jsstring
  | OptAlt "jsstring list"
  | OptAltI "jsstring list"
  | One "nat \<Rightarrow> bool"
  | Opt "nat \<Rightarrow> bool"
  | Star "nat \<Rightarrow> bool"
  | CapPlus "nat \<Rightarrow> bool"
  | CapLazyStar "nat \<Rightarrow> bool"

definition startsWithI :: "jsstring \<Rightarrow> jsstring \<Rightarrow> bool" where
  "startsWithI s p = startsWith (map asciiUpper s) (map asciiUpper p)"

definition cut :: "jsstring \<Rightarrow> nat \<Rightarrow> jsstring \<times> jsstring" where
  "cut s k = (take k s, drop k s)"

text \<open>The runs of \<open>P\<close> at the start of \<open>s\<close> of length \<open>lo\<close> to \<open>hi\<close>, longest first.\<close>

definition runs :: "(nat \<Rightarrow> bool) \<Rightarrow> nat \<Rightarrow> nat \<Rightarrow> jsstring \<Rightarrow> (jsstring \<times> jsstring) list" where
  "runs P lo hi s = map (cut s) (rev [lo ..< Suc (min hi (length (takeWhile P s)))])"

fun alternatives :: "rx \<Rightarrow> jsstring \<Rightarrow> (jsstring \<times> jsstring) list" where
  "alternatives (Lit p) s = (if startsWith s p then [cut s (length p)] else [])"
| "alternatives (LitI p) s = (if startsWithI s p then [cut s (length p)] else [])"
| "alternatives (OptAlt ps) s =
     map (\<lambda>p. cut s (length p)) (filter (startsWith s) ps) @ [([], s)]"
| "alternatives (OptAltI ps) s =
     map (\<lambda>p. cut s (length p)) (filter (startsWithI s) ps) @ [([], s)]"
| "alternatives (One P) s = runs P 1 1 s"
| "alternatives (Opt P) s = runs P 0 1 s"
| "alternatives (Star P) s = runs P 0 (length s) s"
| "alternatives (CapPlus P) s = runs P 1 (length s) s"
| "alternatives (CapLazyStar P) s = rev (runs P 0 (length s) s)"

fun isCapture :: "rx \<Rightarrow> bool" where
  "isCapture (CapPlus P) = True"
| "isCapture (CapLazyStar P) = True"
| "isCapture r = False"

text \<open>
  A match of the whole pattern at the start of \<open>s\<close>: the captures and the rest.
  \<open>tryAlternatives r rs alts caps\<close> goes on after the item \<open>r\<close> with each of its
  alternatives in turn, until the rest of the pattern matches.
\<close>

fun matchHere :: "rx list \<Rightarrow> jsstring \<Rightarrow> jsstring list \<Rightarrow> (jsstring list \<times> jsstring) option"
and tryAlternatives ::
  "rx \<Rightarrow> rx list \<Rightarrow> (jsstring \<times> jsstring) list \<Rightarrow> jsstring list \<Rightarrow> (jsstring list \<times> jsstring) option" where
  "matchHere [] s caps = Some (caps, s)"
| "matchHere (r # rs) s caps = tryAlternatives r rs (alternatives r s) caps"
| "tryAlternatives r rs [] caps = None"
| "tryAlternatives r rs (a # alts) caps =
     (case matchHere rs (snd a) (if isCapture r then caps @ [fst a] else caps) of
        Some res \<Rightarrow> Some res
      | None \<Rightarrow> tryAlternatives r rs alts caps)"

definition execAt :: "rx list \<Rightarrow> jsstring \<Rightarrow> (jsstring \<times> jsstring list) option" where
  "execAt re s =
     (case matchHere re s [] of
        None \<Rightarrow> None
      | Some (caps, rest) \<Rightarrow> Some (take (length s - length rest) s, caps))"

text \<open>The leftmost match: its index, the matched text, the captures.\<close>

fun exec :: "rx list \<Rightarrow> jsstring \<Rightarrow> (nat \<times> jsstring \<times> jsstring list) option" where
  "exec re [] = (case execAt re [] of None \<Rightarrow> None | Some (m, caps) \<Rightarrow> Some (0, m, caps))"
| "exec re (c # s) =
     (case execAt re (c # s) of
        Some (m, caps) \<Rightarrow> Some (0, m, caps)
      | None \<Rightarrow> (case exec re s of None \<Rightarrow> None | Some (i, m, caps) \<Rightarrow> Some (Suc i, m, caps)))"

text \<open>\<^verbatim>\<open>s.match(re)?.[1]\<close> for a pattern without the \<^verbatim>\<open>g\<close> flag: the first capture of the
  leftmost match.\<close>

definition matchGroup1 :: "rx list \<Rightarrow> jsstring \<Rightarrow> jsstring option" where
  "matchGroup1 re s =
     (case exec re s of
        None \<Rightarrow> None
      | Some (i, m, caps) \<Rightarrow> (case caps of [] \<Rightarrow> None | c # cs \<Rightarrow> Some c))"

text \<open>
  \<^verbatim>\<open>s.match(re)\<close> for a pattern with the \<^verbatim>\<open>g\<close> flag: the texts of all matches, each
  search starting where the match before ended (one further on after an empty match).
  \<open>k\<close> is the number of code units still covered by the match before.
\<close>

fun matchAll :: "rx list \<Rightarrow> nat \<Rightarrow> jsstring \<Rightarrow> jsstring list" where
  "matchAll re k [] =
     (if k = 0 then (case execAt re [] of None \<Rightarrow> [] | Some (m, caps) \<Rightarrow> [m]) else [])"
| "matchAll re k (c # s) =
     (if 0 < k then matchAll re (k - 1) s
      else (case execAt re (c # s) of
              None \<Rightarrow> matchAll re 0 s
            | Some (m, caps) \<Rightarrow> m # matchAll re (length m - 1) s))"

text \<open>\<^verbatim>\<open>s.replace(re, '')\<close> for a pattern without the \<^verbatim>\<open>g\<close> flag.\<close>

definition removeFirst :: "rx list \<Rightarrow> jsstring \<Rightarrow> jsstring" where
  "removeFirst re s =
     (case exec re s of
        None \<Rightarrow> s
      | Some (i, m, caps) \<Rightarrow> take i s @ drop (i + length m) s)"

section \<open>The document\<close>

text \<open>
  The tree \<^verbatim>\<open>DOMParser.parseFromString(html, 'text/html')\<close> returns. An element has its
  namespace (the HTML parser puts an element in the HTML, the SVG or the MathML
  namespace), its local name, its attributes in order, and its children. A
  \<^verbatim>\<open>template\<close> element of HTML has no children: what stands between its tags is its
  template contents, a fragment that is no part of the tree; \<open>Template as cs\<close> is such
  an element with the attributes \<open>as\<close> and the contents \<open>cs\<close>.
\<close>

datatype namespace = HTML | SVG | MathML

datatype node =
    Element namespace jsstring "(jsstring \<times> jsstring) list" "node list"
  | Template "(jsstring \<times> jsstring) list" "node list"
  | Text jsstring
  | Comment jsstring

record document =
  quirksMode :: bool
  documentElement :: node

fun namespaceOf :: "node \<Rightarrow> namespace" where
  "namespaceOf (Element ns t as cs) = ns"
| "namespaceOf (Template as cs) = HTML"
| "namespaceOf (Text s) = HTML"
| "namespaceOf (Comment s) = HTML"

fun localName :: "node \<Rightarrow> jsstring" where
  "localName (Element ns t as cs) = t"
| "localName (Template as cs) = js ''template''"
| "localName (Text s) = []"
| "localName (Comment s) = []"

fun attributes :: "node \<Rightarrow> (jsstring \<times> jsstring) list" where
  "attributes (Element ns t as cs) = as"
| "attributes (Template as cs) = as"
| "attributes (Text s) = []"
| "attributes (Comment s) = []"

fun childNodes :: "node \<Rightarrow> node list" where
  "childNodes (Element ns t as cs) = cs"
| "childNodes (Template as cs) = []"
| "childNodes (Text s) = []"
| "childNodes (Comment s) = []"

fun isElement :: "node \<Rightarrow> bool" where
  "isElement (Element ns t as cs) = True"
| "isElement (Template as cs) = True"
| "isElement (Text s) = False"
| "isElement (Comment s) = False"

definition getAttribute :: "node \<Rightarrow> jsstring \<Rightarrow> jsstring option" where
  "getAttribute n a = map_of (attributes n) a"

text \<open>The value of the class attribute, the empty string without one.\<close>

definition classAttribute :: "node \<Rightarrow> jsstring" where
  "classAttribute n = (case getAttribute n (js ''class'') of None \<Rightarrow> [] | Some v \<Rightarrow> v)"

text \<open>The text content of an element: the data of its descendant text nodes, in tree
  order. The contents of a template are no descendants.\<close>

fun textContent :: "node \<Rightarrow> jsstring" where
  "textContent (Element ns t as cs) = concat (map textContent cs)"
| "textContent (Template as cs) = []"
| "textContent (Text s) = s"
| "textContent (Comment s) = []"

text \<open>
  The HTML fragment serialisation of the children of an element, as the HTML Standard
  has it now (\<^verbatim>\<open><\<close> and \<^verbatim>\<open>>\<close> are escaped in attribute values too). For a template
  element, as the node itself or below it, the template contents are serialised in
  place of the children. A void element of HTML has no end tag; the text in a raw text
  element of HTML is not escaped.
\<close>

definition voidElements :: "jsstring list" where
  "voidElements = map js [''area'', ''base'', ''basefont'', ''bgsound'', ''br'', ''col'',
     ''embed'', ''frame'', ''hr'', ''img'', ''input'', ''keygen'', ''link'', ''meta'',
     ''param'', ''source'', ''track'', ''wbr'']"

definition rawTextElements :: "jsstring list" where
  "rawTextElements = map js [''style'', ''script'', ''xmp'', ''iframe'', ''noembed'',
     ''noframes'', ''plaintext'']"

fun escapeString :: "bool \<Rightarrow> jsstring \<Rightarrow> jsstring" where
  "escapeString attr [] = []"
| "escapeString attr (c # s) =
     (if c = 38 then js ''&amp;''
      else if c = 160 then js ''&nbsp;''
      else if c = 60 then js ''&lt;''
      else if c = 62 then js ''&gt;''
      else if attr \<and> c = 34 then js ''&quot;''
      else [c]) @ escapeString attr s"

definition serializeAttribute :: "jsstring \<times> jsstring \<Rightarrow> jsstring" where
  "serializeAttribute a = js '' '' @ fst a @ js ''=\"'' @ escapeString True (snd a) @ js ''\"''"

fun serialize :: "bool \<Rightarrow> node \<Rightarrow> jsstring" where
  "serialize raw (Element ns t as cs) =
     js ''<'' @ t @ concat (map serializeAttribute as) @ js ''>'' @
     (if ns = HTML \<and> t \<in> set voidElements then []
      else concat (map (serialize (ns = HTML \<and> t \<in> set rawTextElements)) cs) @
           js ''</'' @ t @ js ''>'')"
| "serialize raw (Template as cs) =
     js ''<template'' @ concat (map serializeAttribute as) @ js ''>'' @
     concat (map (serialize False) cs) @ js ''</template>''"
| "serialize raw (Text s) = (if raw then s else escapeString False s)"
| "serialize raw (Comment s) = js ''<!--'' @ s @ js ''-->''"

fun innerHTML :: "node \<Rightarrow> jsstring" where
  "innerHTML (Element ns t as cs) =
     concat (map (serialize (ns = HTML \<and> t \<in> set rawTextElements)) cs)"
| "innerHTML (Template as cs) = concat (map (serialize False) cs)"
| "innerHTML (Text s) = []"
| "innerHTML (Comment s) = []"

subsection \<open>Elements in their place\<close>

text \<open>
  A selector looks at the ancestors of an element and at its place among its siblings,
  so the program's handle on an element is the element node, whether it is the first
  element child of its parent, and the same for each ancestor, nearest first.
\<close>

type_synonym placed = "node \<times> bool"

type_synonym element = "placed \<times> placed list"

definition nodeOf :: "element \<Rightarrow> node" where
  "nodeOf e = fst (fst e)"

fun subtree :: "placed list \<Rightarrow> bool \<Rightarrow> node \<Rightarrow> element list"
and forest :: "placed list \<Rightarrow> bool \<Rightarrow> node list \<Rightarrow> element list" where
  "subtree anc first (Element ns t as cs) =
     ((Element ns t as cs, first), anc) # forest ((Element ns t as cs, first) # anc) True cs"
| "subtree anc first (Template as cs) = [((Template as cs, first), anc)]"
| "subtree anc first (Text s) = []"
| "subtree anc first (Comment s) = []"
| "forest anc first [] = []"
| "forest anc first (c # cs) = subtree anc first c @ forest anc (first \<and> \<not> isElement c) cs"

text \<open>The descendant elements of an element, and the elements of a document, in tree
  order.\<close>

definition descendants :: "element \<Rightarrow> element list" where
  "descendants e = forest (fst e # snd e) True (childNodes (nodeOf e))"

definition allElements :: "document \<Rightarrow> element list" where
  "allElements doc = subtree [] True (documentElement doc)"

text \<open>\<^verbatim>\<open>doc.body\<close>: the first body or frameset child of the html element. The properties
  of the document object are taken as the built-in ones.\<close>

definition body :: "document \<Rightarrow> node option" where
  "body doc =
     find (\<lambda>c. isElement c \<and> namespaceOf c = HTML \<and>
                (localName c = js ''body'' \<or> localName c = js ''frameset''))
       (childNodes (documentElement doc))"

subsection \<open>Selectors\<close>

text \<open>
  The selectors of the source: a list (the commas) of complex selectors, each a list of
  compound selectors joined by the descendant combinator, each a list of simple
  selectors. \<open>AttrContains a v\<close> is \<^verbatim>\<open>[a*="v"]\<close>, \<open>AttrStarts a v\<close> is \<^verbatim>\<open>[a^="v"]\<close>,
  \<open>Attr a\<close> is \<^verbatim>\<open>[a]\<close>.
\<close>

datatype simple =
    Tag jsstring
  | Class jsstring
  | Attr jsstring
  | AttrContains jsstring jsstring
  | AttrStarts jsstring jsstring
  | FirstChild

type_synonym compound = "simple list"
type_synonym complex = "compound list"
type_synonym selector = "complex list"

fun tokensFrom :: "jsstring \<Rightarrow> jsstring \<Rightarrow> jsstring list" where
  "tokensFrom cur [] = (if cur = [] then [] else [cur])"
| "tokensFrom cur (c # s) =
     (if isAsciiWhitespace c then (if cur = [] then tokensFrom [] s else cur # tokensFrom [] s)
      else tokensFrom (cur @ [c]) s)"

definition classList :: "node \<Rightarrow> jsstring list" where
  "classList n = tokensFrom [] (classAttribute n)"

text \<open>A class selector compares case-sensitively, in a quirks-mode document ASCII
  case-insensitively.\<close>

definition classEq :: "bool \<Rightarrow> jsstring \<Rightarrow> jsstring \<Rightarrow> bool" where
  "classEq quirks c d = (if quirks then map asciiUpper c = map asciiUpper d else c = d)"

fun matchesSimple :: "bool \<Rightarrow> simple \<Rightarrow> placed \<Rightarrow> bool" where
  "matchesSimple q (Tag t) p = (localName (fst p) = t)"
| "matchesSimple q (Class c) p = list_ex (classEq q c) (classList (fst p))"
| "matchesSimple q (Attr a) p = (getAttribute (fst p) a \<noteq> None)"
| "matchesSimple q (AttrContains a v) p =
     (case getAttribute (fst p) a of None \<Rightarrow> False | Some x \<Rightarrow> v \<noteq> [] \<and> js_includes x v)"
| "matchesSimple q (AttrStarts a v) p =
     (case getAttribute (fst p) a of None \<Rightarrow> False | Some x \<Rightarrow> v \<noteq> [] \<and> startsWith x v)"
| "matchesSimple q FirstChild p = snd p"

definition matchesCompound :: "bool \<Rightarrow> compound \<Rightarrow> placed \<Rightarrow> bool" where
  "matchesCompound q c p = list_all (\<lambda>s. matchesSimple q s p) c"

text \<open>The compounds left of the subject, innermost first, against the ancestors,
  nearest first.\<close>

fun matchesAncestors :: "bool \<Rightarrow> compound list \<Rightarrow> placed list \<Rightarrow> bool" where
  "matchesAncestors q [] ancs = True"
| "matchesAncestors q (c # cs) [] = False"
| "matchesAncestors q (c # cs) (a # ancs) =
     (if matchesCompound q c a then matchesAncestors q cs ancs
      else matchesAncestors q (c # cs) ancs)"

definition matchesComplex :: "bool \<Rightarrow> complex \<Rightarrow> element \<Rightarrow> bool" where
  "matchesComplex q cx e =
     (case rev cx of
        [] \<Rightarrow> False
      | c # cs \<Rightarrow> matchesCompound q c (fst e) \<and> matchesAncestors q cs (snd e))"

definition matches :: "document \<Rightarrow> selector \<Rightarrow> element \<Rightarrow> bool" where
  "matches doc sel e = list_ex (\<lambda>cx. matchesComplex (quirksMode doc) cx e) sel"

text \<open>\<^verbatim>\<open>doc.querySelectorAll(sel)\<close>, \<^verbatim>\<open>el.querySelectorAll(sel)\<close> and
  \<^verbatim>\<open>el.querySelector(sel)\<close> (\<open>None\<close> is \<^verbatim>\<open>null\<close>).\<close>

definition docQuerySelectorAll :: "document \<Rightarrow> selector \<Rightarrow> element list" where
  "docQuerySelectorAll doc sel = filter (matches doc sel) (allElements doc)"

definition querySelectorAll :: "document \<Rightarrow> element \<Rightarrow> selector \<Rightarrow> element list" where
  "querySelectorAll doc e sel = filter (matches doc sel) (descendants e)"

definition querySelector :: "document \<Rightarrow> element \<Rightarrow> selector \<Rightarrow> element option" where
  "querySelector doc e sel = find (matches doc sel) (descendants e)"

text \<open>Short forms for writing the selectors of the source.\<close>

definition cls :: "string \<Rightarrow> complex" where
  "cls c = [[Class (js c)]]"

definition tag :: "string \<Rightarrow> complex" where
  "tag t = [[Tag (js t)]]"

definition classHas :: "string \<Rightarrow> complex" where
  "classHas v = [[AttrContains (js ''class'') (js v)]]"

section \<open>The platform\<close>

text \<open>
  What the program takes from the browser and this development does not define: the
  HTML parser, the Unicode lower-casing of \<^verbatim>\<open>toLowerCase()\<close>, the URL an \<^verbatim>\<open>src\<close> or
  \<^verbatim>\<open>href\<close> attribute resolves to against the base URL of the document, the double a
  decimal literal is rounded to, which names a form element has a named property for
  (the names and ids of its controls), and which elements of SVG, besides \<^verbatim>\<open>a\<close>, have
  an \<^verbatim>\<open>href\<close> property. The clock, \<^verbatim>\<open>new Date().toISOString()\<close>, is a parameter of
  its own: \<open>clock k\<close> is what the call after \<open>k\<close> earlier calls returns.
\<close>

record platform =
  parseFromString :: "jsstring \<Rightarrow> document"
  toLowerCase :: "jsstring \<Rightarrow> jsstring"
  resolveURL :: "jsstring \<Rightarrow> jsstring"
  toDouble :: "rat \<Rightarrow> number"
  formProperty :: "node \<Rightarrow> jsstring \<Rightarrow> bool"
  svgHref :: "jsstring \<Rightarrow> bool"

subsection \<open>Reading a property of an element\<close>

text \<open>
  The program reads properties of elements and calls string methods on what it reads.
  Where the value read is no string the call throws a TypeError, which nothing in the
  parser catches: the parser does not return. A function below that reads a property
  has an optional result, and \<open>None\<close> is that TypeError. There are two ways to a value
  that is no string. The \<^verbatim>\<open>className\<close> of an element of SVG is an object (an
  SVGAnimatedString), and so is its \<^verbatim>\<open>href\<close>; \<^verbatim>\<open>?.\<close> guards against \<^verbatim>\<open>null\<close> and
  \<^verbatim>\<open>undefined\<close> only. And a named property of a form element shadows the built-in
  property of the same name, methods included: with a control named \<^verbatim>\<open>textContent\<close>
  in it, \<^verbatim>\<open>form.textContent\<close> is that control.
\<close>

definition shadowed :: "platform \<Rightarrow> node \<Rightarrow> string \<Rightarrow> bool" where
  "shadowed P n k =
     (namespaceOf n = HTML \<and> localName n = js ''form'' \<and> formProperty P n (js k))"

text \<open>\<^verbatim>\<open>el.textContent\<close>, \<^verbatim>\<open>el.className\<close> and \<^verbatim>\<open>el.innerHTML\<close>, where they are
  strings.\<close>

definition textContentOf :: "platform \<Rightarrow> element \<Rightarrow> jsstring option" where
  "textContentOf P e =
     (if shadowed P (nodeOf e) ''textContent'' then None else Some (textContent (nodeOf e)))"

definition classNameOf :: "platform \<Rightarrow> element \<Rightarrow> jsstring option" where
  "classNameOf P e =
     (if namespaceOf (nodeOf e) = SVG \<or> shadowed P (nodeOf e) ''className'' then None
      else Some (classAttribute (nodeOf e)))"

definition innerHTMLOf :: "platform \<Rightarrow> element \<Rightarrow> jsstring option" where
  "innerHTMLOf P e =
     (if shadowed P (nodeOf e) ''innerHTML'' then None else Some (innerHTML (nodeOf e)))"

text \<open>\<^verbatim>\<open>el.querySelector(sel)\<close> and \<^verbatim>\<open>el.querySelectorAll(sel)\<close>, where they are the
  methods of the element; the result of the first is \<open>None\<close> for \<^verbatim>\<open>null\<close>.\<close>

definition querySelectorOf ::
  "platform \<Rightarrow> document \<Rightarrow> element \<Rightarrow> selector \<Rightarrow> element option option" where
  "querySelectorOf P doc e sel =
     (if shadowed P (nodeOf e) ''querySelector'' then None else Some (querySelector doc e sel))"

definition querySelectorAllOf ::
  "platform \<Rightarrow> document \<Rightarrow> element \<Rightarrow> selector \<Rightarrow> element list option" where
  "querySelectorAllOf P doc e sel =
     (if shadowed P (nodeOf e) ''querySelectorAll'' then None
      else Some (querySelectorAll doc e sel))"

text \<open>A loop that reads once for each element of a list: all the values read, or the
  TypeError of a read.\<close>

fun readAll :: "('a \<Rightarrow> 'b option) \<Rightarrow> 'a list \<Rightarrow> 'b list option" where
  "readAll f [] = Some []"
| "readAll f (x # xs) = do { y \<leftarrow> f x; ys \<leftarrow> readAll f xs; Some (y # ys) }"

text \<open>\<^verbatim>\<open>img.src\<close>: a string on an image element of HTML, \<open>None\<close> (\<^verbatim>\<open>undefined\<close>) on any
  other element.\<close>

definition srcOf :: "platform \<Rightarrow> node \<Rightarrow> jsstring option" where
  "srcOf P n =
     (if namespaceOf n = HTML \<and> localName n = js ''img'' then
        Some (case getAttribute n (js ''src'') of None \<Rightarrow> [] | Some v \<Rightarrow> resolveURL P v)
      else None)"

text \<open>\<^verbatim>\<open>el.href\<close>: a string on the elements of HTML that have the property, an object on
  those of SVG that have it and on a form with a control of that name, \<^verbatim>\<open>undefined\<close> on
  the others.\<close>

datatype href = HrefUndefined | HrefString jsstring | HrefObject

definition hrefOf :: "platform \<Rightarrow> node \<Rightarrow> href" where
  "hrefOf P n =
     (if shadowed P n ''href'' then HrefObject
      else if namespaceOf n = HTML then
        (if localName n \<in> set (map js [''a'', ''area'', ''link'']) then
           HrefString (case getAttribute n (js ''href'') of None \<Rightarrow> [] | Some v \<Rightarrow> resolveURL P v)
         else if localName n = js ''base'' then
           HrefString (resolveURL P (case getAttribute n (js ''href'') of None \<Rightarrow> [] | Some v \<Rightarrow> v))
         else HrefUndefined)
      else if namespaceOf n = SVG \<and> (localName n = js ''a'' \<or> svgHref P (localName n)) then
        HrefObject
      else HrefUndefined)"

section \<open>The data model\<close>

datatype Status = Pass | Fail | Skip

record Screenshot =
  name_img :: jsstring
  mimeType :: jsstring
  base64Data :: jsstring

text \<open>An optional field is \<open>None\<close> when the property is \<^verbatim>\<open>undefined\<close> or absent.\<close>

record TestCase =
  id_tc :: jsstring
  name :: jsstring
  className :: jsstring
  status :: Status
  duration :: number
  errorMessage :: "jsstring option"
  stackTrace :: "jsstring option"
  logs :: "jsstring list option"
  stepsToReproduce :: "jsstring list option"
  screenshots :: "Screenshot list option"
  timestamp :: "jsstring option"

text \<open>\<^verbatim>\<open>s || undefined\<close> and \<^verbatim>\<open>xs.length > 0 ? xs : undefined\<close>.\<close>

definition orUndefined :: "'a list \<Rightarrow> 'a list option" where
  "orUndefined xs = (if xs = [] then None else Some xs)"

section \<open>The parser\<close>

text \<open>
  The function \<^verbatim>\<open>parseSparkExtentReport\<close> of the report parser, the one that also
  extracts steps and screenshots. Its body is one loop over the test nodes followed by
  the regex extraction; the definitions below are the parts of that body, in its order,
  each named after what it computes and introduced with the comment that heads it in
  the source. A part that reads properties of elements has an optional result, \<open>None\<close>
  when a read ends in a TypeError.
\<close>

subsection \<open>Node selector cascade\<close>

text \<open>\<^verbatim>\<open>// Spark Extent Report specific selectors\<close>: the selector list, in its order.\<close>

definition selectors :: "selector list" where
  "selectors =
     [[cls ''test''],
      [cls ''test-content''],
      [[[Class (js ''card''), Class (js ''test-card'')]]],
      [[[Tag (js ''li''), Class (js ''test'')]]],
      [[[Tag (js ''div''), AttrContains (js ''class'') (js ''test'')]]],
      [[[Tag (js ''table'')], [Tag (js ''tbody'')], [Tag (js ''tr'')]]],
      [[[Class (js ''table-responsive'')], [Tag (js ''tbody'')], [Tag (js ''tr'')]]],
      [cls ''node''],
      [[[Class (js ''category-content'')], [Class (js ''test-detail'')]]],
      [cls ''test-item''],
      [cls ''test-row'']]"

text \<open>The loop over the selectors, left at the first one with a match.\<close>

fun firstMatching :: "document \<Rightarrow> selector list \<Rightarrow> element list" where
  "firstMatching doc [] = []"
| "firstMatching doc (sel # sels) =
     (let nodes = docQuerySelectorAll doc sel
      in if 0 < length nodes then nodes else firstMatching doc sels)"

text \<open>\<^verbatim>\<open>// If still empty, try to find any element with status indicators\<close>\<close>

definition statusIndicators :: selector where
  "statusIndicators = [classHas ''pass'', classHas ''fail'', classHas ''skip'', classHas ''error'']"

definition findTestNodes :: "document \<Rightarrow> element list" where
  "findTestNodes doc =
     (let testNodes = firstMatching doc selectors
      in if length testNodes = 0 then docQuerySelectorAll doc statusIndicators else testNodes)"

subsection \<open>Name\<close>

text \<open>\<^verbatim>\<open>// Extract test name\<close>\<close>

definition nameSelectors :: "selector list" where
  "nameSelectors =
     [[cls ''test-name''], [cls ''name''], [[[Tag (js ''td''), FirstChild]]], [tag ''h5''],
      [cls ''card-title''], [cls ''test-title''], [tag ''a'']]"

text \<open>The trimmed text of the first selector whose first match has one; the empty string
  when the loop runs out. The loop stops at that selector: it queries for the selectors
  up to it and reads the text of what they find, and no more.\<close>

fun firstText :: "platform \<Rightarrow> document \<Rightarrow> element \<Rightarrow> selector list \<Rightarrow> jsstring option" where
  "firstText P doc node [] = Some []"
| "firstText P doc node (sel # sels) =
     do { el \<leftarrow> querySelectorOf P doc node sel;
          (case el of
             None \<Rightarrow> firstText P doc node sels
           | Some e \<Rightarrow>
               do { t \<leftarrow> textContentOf P e;
                    if trim t \<noteq> [] then Some (trim t) else firstText P doc node sels }) }"

definition extractName :: "platform \<Rightarrow> document \<Rightarrow> element \<Rightarrow> nat \<Rightarrow> jsstring option" where
  "extractName P doc node index =
     do { name \<leftarrow> firstText P doc node nameSelectors;
          if name = [] then
            do { t \<leftarrow> textContentOf P node;
                 let line = take 100 (firstLine (trim t));
                 Some (if line = [] then js ''Test '' @ numToString (index + 1) else line) }
          else Some name }"

subsection \<open>Status classifier\<close>

text \<open>\<^verbatim>\<open>// Extract status\<close>, \<^verbatim>\<open>// Check for status indicators\<close>: the verdict from the
  text, the class and the markup of the whole node, read in this order. The last
  branch assigns the value the variable has already.\<close>

definition wholeNodeStatus :: "platform \<Rightarrow> element \<Rightarrow> Status option" where
  "wholeNodeStatus P node =
     do { t \<leftarrow> textContentOf P node;
          c \<leftarrow> classNameOf P node;
          h \<leftarrow> innerHTMLOf P node;
          let nodeText = toLowerCase P t;
          let nodeClass = toLowerCase P c;
          let nodeHtml = toLowerCase P h;
          Some (if js_includes nodeClass (js ''fail'') \<or> js_includes nodeClass (js ''error'') \<or>
                   js_includes nodeHtml (js ''fail'') \<or> js_includes nodeHtml (js ''error'') \<or>
                   js_includes nodeText (js ''failed'') \<or> js_includes nodeText (js ''exception'')
                then Fail
                else if js_includes nodeClass (js ''skip'') \<or> js_includes nodeHtml (js ''skip'') \<or>
                        js_includes nodeText (js ''skipped'')
                then Skip
                else if js_includes nodeClass (js ''pass'') \<or> js_includes nodeHtml (js ''pass'') \<or>
                        js_includes nodeHtml [10003] \<or> js_includes nodeHtml (js ''success'')
                then Pass
                else Pass) }"

definition statusSelector :: selector where
  "statusSelector = [cls ''status'', cls ''badge'', classHas ''status'', cls ''test-status'']"

text \<open>\<^verbatim>\<open>// Also check for status badge/icon elements\<close>: the check of the status badge,
  on the verdict so far and the badge element found, on its text and its class in
  lower case.\<close>

definition badgeStatus :: "platform \<Rightarrow> Status \<Rightarrow> element option \<Rightarrow> Status option" where
  "badgeStatus P verdict statusEl =
     (case statusEl of
        None \<Rightarrow> Some verdict
      | Some el \<Rightarrow>
          do { t \<leftarrow> textContentOf P el;
               c \<leftarrow> classNameOf P el;
               let statusText = toLowerCase P t;
               let statusClass = toLowerCase P c;
               Some (if js_includes statusText (js ''fail'') \<or>
                        js_includes statusClass (js ''fail'') \<or>
                        js_includes statusClass (js ''danger'')
                     then Fail
                     else if js_includes statusText (js ''skip'') \<or>
                             js_includes statusClass (js ''skip'') \<or>
                             js_includes statusClass (js ''warning'')
                     then Skip
                     else verdict) })"

definition extractStatus :: "platform \<Rightarrow> document \<Rightarrow> element \<Rightarrow> Status option" where
  "extractStatus P doc node =
     do { verdict \<leftarrow> wholeNodeStatus P node;
          statusEl \<leftarrow> querySelectorOf P doc node statusSelector;
          badgeStatus P verdict statusEl }"

subsection \<open>Error message, stack trace and logs\<close>

text \<open>\<^verbatim>\<open>// Extract error message and stack trace\<close>\<close>

definition errorSelectors :: "selector list" where
  "errorSelectors =
     [[cls ''exception''], [cls ''error''], [cls ''stacktrace''], [cls ''stack-trace''],
      [tag ''pre''], [tag ''code''], [cls ''log''], [cls ''step-details'']]"

text \<open>The body of the inner loop, on the three variables it assigns, the error message,
  the stack trace and the logs, and on the trimmed text of the element.\<close>

definition errorStep ::
  "jsstring \<times> jsstring \<times> jsstring list \<Rightarrow> jsstring \<Rightarrow> jsstring \<times> jsstring \<times> jsstring list" where
  "errorStep acc text =
     (case acc of (msg, trace, lgs) \<Rightarrow>
        if text \<noteq> [] then
          (if msg = [] \<and>
                (js_includes text (js ''Assert'') \<or> js_includes text (js ''Expected'') \<or>
                 js_includes text (js ''Error:''))
           then firstLine text else msg,
           if (js_includes text (js ''Exception'') \<or> js_includes text (js ''Error'') \<or>
               js_includes text (js ''at '')) \<and> trace = []
           then text else trace,
           lgs @ [text])
        else acc)"

text \<open>The elements of all the selectors, selector by selector, and the text of each
  of them: both loops run to their end.\<close>

definition trimmedTexts ::
  "platform \<Rightarrow> document \<Rightarrow> element \<Rightarrow> selector list \<Rightarrow> jsstring list option" where
  "trimmedTexts P doc node sels =
     do { els \<leftarrow> readAll (querySelectorAllOf P doc node) sels;
          texts \<leftarrow> readAll (textContentOf P) (concat els);
          Some (map trim texts) }"

definition extractErrors ::
  "platform \<Rightarrow> document \<Rightarrow> element \<Rightarrow> (jsstring \<times> jsstring \<times> jsstring list) option" where
  "extractErrors P doc node =
     do { texts \<leftarrow> trimmedTexts P doc node errorSelectors;
          Some (foldl errorStep ([], [], []) texts) }"

subsection \<open>Steps to reproduce\<close>

text \<open>\<^verbatim>\<open>// Extract steps to reproduce from test steps/logs\<close> and
  \<^verbatim>\<open>// Also try to extract steps from structured logs\<close>\<close>

definition stepSelectors :: "selector list" where
  "stepSelectors =
     [[cls ''step''], [cls ''test-step''], [cls ''log-step''], [cls ''step-name''],
      [cls ''step-details''], [cls ''node-step''], [[[Tag (js ''li''), Class (js ''step'')]]]]"

definition logSelector :: selector where
  "logSelector = [cls ''log'', cls ''test-log'', classHas ''step'']"

definition extractSteps :: "platform \<Rightarrow> document \<Rightarrow> element \<Rightarrow> jsstring list option" where
  "extractSteps P doc node =
     do { texts \<leftarrow> trimmedTexts P doc node stepSelectors;
          let steps = filter (\<lambda>stepText. stepText \<noteq> [] \<and> 5 < length stepText \<and>
                                length stepText < 500) texts;
          if length steps = 0 then
            do { logTexts \<leftarrow> trimmedTexts P doc node [logSelector];
                 Some (filter (\<lambda>text. text \<noteq> [] \<and> 5 < length text \<and> length text < 300 \<and>
                                  \<not> js_includes text (js ''Exception'')) logTexts) }
          else Some steps }"

subsection \<open>Screenshots\<close>

text \<open>\<^verbatim>\<open>// Extract screenshots (base64 encoded images)\<close>\<close>

definition imgSelectors :: "selector list" where
  "imgSelectors =
     [[[[Tag (js ''img''), AttrStarts (js ''src'') (js ''data:image'')]]],
      [[[Tag (js ''img''), Class (js ''screenshot'')]]],
      [[[Class (js ''screenshot'')], [Tag (js ''img'')]]],
      [[[Class (js ''test-img'')], [Tag (js ''img'')]]],
      [[[Class (js ''media'')], [Tag (js ''img'')]]]]"

text \<open>\<^verbatim>\<open>/data:([^;]+);base64,(.+)/\<close>\<close>

definition dataUriRe :: "rx list" where
  "dataUriRe =
     [Lit (js ''data:''), CapPlus (\<lambda>c. c \<noteq> 59), Lit (js '';base64,''),
      CapPlus (\<lambda>c. \<not> isLineTerminator c)]"

text \<open>The body of the loop over the images of one selector; \<open>count\<close> is
  \<^verbatim>\<open>testCases.length\<close>. An \<^verbatim>\<open>src\<close> that is \<^verbatim>\<open>undefined\<close> is passed over.\<close>

definition screenshotOf :: "platform \<Rightarrow> nat \<Rightarrow> nat \<times> element \<Rightarrow> Screenshot list" where
  "screenshotOf P count ie =
     (case srcOf P (nodeOf (snd ie)) of
        None \<Rightarrow> []
      | Some src \<Rightarrow>
          if startsWith src (js ''data:image'') then
            (case exec dataUriRe src of
               None \<Rightarrow> []
             | Some (i, m, caps) \<Rightarrow>
                 (case caps of
                    c1 # c2 # cs \<Rightarrow>
                      [\<lparr>name_img = js ''screenshot-'' @ numToString (count + 1) @ js ''-'' @
                                   numToString (fst ie + 1) @ js ''.png'',
                        mimeType = c1, base64Data = c2\<rparr>]
                  | _ \<Rightarrow> []))
          else [])"

definition extractScreenshots ::
  "platform \<Rightarrow> document \<Rightarrow> element \<Rightarrow> nat \<Rightarrow> Screenshot list option" where
  "extractScreenshots P doc node count =
     do { imgEls \<leftarrow> readAll (querySelectorAllOf P doc node) imgSelectors;
          Some (concat (map (\<lambda>imgs. concat (map (screenshotOf P count) (enumerate 0 imgs)))
                          imgEls)) }"

definition screenshotLinks :: selector where
  "screenshotLinks =
     [[[Tag (js ''a''), AttrContains (js ''href'') (js ''screenshot'')]],
      [[Tag (js ''a''), AttrContains (js ''href'') (js ''image'')]],
      cls ''screenshot-link'']"

text \<open>\<^verbatim>\<open>// Also look for screenshot links/attachments\<close>: the log line for one link.
  An \<^verbatim>\<open>href\<close> that is an object is truthy and has no \<^verbatim>\<open>includes\<close>: the call throws.\<close>

definition linkLog :: "platform \<Rightarrow> element \<Rightarrow> jsstring list option" where
  "linkLog P link =
     (case hrefOf P (nodeOf link) of
        HrefUndefined \<Rightarrow> Some []
      | HrefObject \<Rightarrow> None
      | HrefString href \<Rightarrow>
          Some (if href \<noteq> [] \<and>
                   (js_includes href (js ''.png'') \<or> js_includes href (js ''.jpg'') \<or>
                    js_includes href (js ''.jpeg''))
                then [js ''Screenshot available: '' @ href] else []))"

text \<open>The log lines for the links to screenshots, pushed after the logs of the error
  elements.\<close>

definition linkLogs :: "platform \<Rightarrow> document \<Rightarrow> element \<Rightarrow> jsstring list option" where
  "linkLogs P doc node =
     do { links \<leftarrow> querySelectorAllOf P doc node screenshotLinks;
          lines \<leftarrow> readAll (linkLog P) links;
          Some (concat lines) }"

subsection \<open>Class name and duration\<close>

text \<open>\<^verbatim>\<open>// Extract class name\<close> and \<^verbatim>\<open>// Extract duration\<close>\<close>

definition classSelectors :: "selector list" where
  "classSelectors = [[cls ''class-name''], [cls ''category''], [cls ''test-class''], [cls ''package'']]"

definition extractClassName :: "platform \<Rightarrow> document \<Rightarrow> element \<Rightarrow> jsstring option" where
  "extractClassName P doc node =
     do { c \<leftarrow> firstText P doc node classSelectors;
          Some (if c = [] then js ''Test Suite'' else c) }"

definition durationSelector :: selector where
  "durationSelector = [cls ''duration'', cls ''time'', classHas ''time'', cls ''test-time'']"

text \<open>\<^verbatim>\<open>parseFloat(durationText.replace(/[^0-9.]/g, '')) || 0\<close>\<close>

definition parseDuration :: "platform \<Rightarrow> jsstring \<Rightarrow> number" where
  "parseDuration P durationText =
     (case decimalPrefix (filter (\<lambda>c. isDigit c \<or> c = 46) durationText) of
        None \<Rightarrow> Finite 0
      | Some q \<Rightarrow> orZero (toDouble P q))"

text \<open>\<^verbatim>\<open>durationEl?.textContent || '0'\<close>; a text that is an object has no
  \<^verbatim>\<open>replace\<close>.\<close>

definition durationTextOf :: "platform \<Rightarrow> element option \<Rightarrow> jsstring option" where
  "durationTextOf P durationEl =
     (case durationEl of
        None \<Rightarrow> Some (js ''0'')
      | Some el \<Rightarrow> do { t \<leftarrow> textContentOf P el; Some (if t = [] then js ''0'' else t) })"

definition extractDuration :: "platform \<Rightarrow> document \<Rightarrow> element \<Rightarrow> number option" where
  "extractDuration P doc node =
     do { durationEl \<leftarrow> querySelectorOf P doc node durationSelector;
          durationText \<leftarrow> durationTextOf P durationEl;
          Some (parseDuration P durationText) }"

subsection \<open>The structural pass\<close>

text \<open>
  The body of the loop over the test nodes, for the node at \<open>index\<close> when \<open>count\<close>
  records have been pushed: the record it pushes, or none when the name has at most two
  code units (\<^verbatim>\<open>// Only add if we have a meaningful name (not just whitespace)\<close>).
  Each push reads the clock once. The body has no result when one of its reads ends in
  a TypeError.
\<close>

definition testCaseOf ::
  "platform \<Rightarrow> (nat \<Rightarrow> jsstring) \<Rightarrow> document \<Rightarrow> nat \<Rightarrow> nat \<times> element \<Rightarrow> TestCase list option" where
  "testCaseOf P clock doc count inode =
     do { nm \<leftarrow> extractName P doc (snd inode) (fst inode);
          st \<leftarrow> extractStatus P doc (snd inode);
          errs \<leftarrow> extractErrors P doc (snd inode);
          steps \<leftarrow> extractSteps P doc (snd inode);
          shots \<leftarrow> extractScreenshots P doc (snd inode) count;
          links \<leftarrow> linkLogs P doc (snd inode);
          cn \<leftarrow> extractClassName P doc (snd inode);
          d \<leftarrow> extractDuration P doc (snd inode);
          Some (if nm \<noteq> [] \<and> 2 < length nm then
                  [\<lparr>id_tc = js ''test-'' @ numToString (fst inode + 1),
                    name = nm,
                    className = cn,
                    status = st,
                    duration = d,
                    errorMessage = orUndefined (fst errs),
                    stackTrace = orUndefined (fst (snd errs)),
                    logs = orUndefined (snd (snd errs) @ links),
                    stepsToReproduce = orUndefined steps,
                    screenshots = orUndefined shots,
                    timestamp = Some (clock count)\<rparr>]
                else []) }"

text \<open>The loop: a TypeError in the body for one node ends the loop and the parser.\<close>

fun structuralLoop ::
  "platform \<Rightarrow> (nat \<Rightarrow> jsstring) \<Rightarrow> document \<Rightarrow> TestCase list \<Rightarrow> (nat \<times> element) list \<Rightarrow>
   TestCase list option" where
  "structuralLoop P clock doc testCases [] = Some testCases"
| "structuralLoop P clock doc testCases (inode # rest) =
     do { pushed \<leftarrow> testCaseOf P clock doc (length testCases) inode;
          structuralLoop P clock doc (testCases @ pushed) rest }"

definition structuralPass ::
  "platform \<Rightarrow> (nat \<Rightarrow> jsstring) \<Rightarrow> document \<Rightarrow> TestCase list option" where
  "structuralPass P clock doc = structuralLoop P clock doc [] (enumerate 0 (findTestNodes doc))"

subsection \<open>Regex fallback\<close>

text \<open>\<^verbatim>\<open>// If no tests found with DOM parsing, try regex extraction\<close>\<close>

text \<open>\<^verbatim>\<open>/pass(?:ed)?\s*[:\s]*(\d+)/i\<close>, \<^verbatim>\<open>/fail(?:ed|ure)?\s*[:\s]*(\d+)/i\<close> and
  \<^verbatim>\<open>/skip(?:ped)?\s*[:\s]*(\d+)/i\<close>\<close>

definition countRe :: "string \<Rightarrow> string list \<Rightarrow> rx list" where
  "countRe word endings =
     [LitI (js word), OptAltI (map js endings), Star isWhiteSpace,
      Star (\<lambda>c. c = 58 \<or> isWhiteSpace c), CapPlus isDigit]"

definition passRe :: "rx list" where
  "passRe = countRe ''pass'' [''ed'']"

definition failRe :: "rx list" where
  "failRe = countRe ''fail'' [''ed'', ''ure'']"

definition skipRe :: "rx list" where
  "skipRe = countRe ''skip'' [''ped'']"

text \<open>\<^verbatim>\<open>/test[_\s-]?name["']?\s*[>:]\s*/i\<close>, and with the capture \<^verbatim>\<open>([^<\n]+)\<close> after it.\<close>

definition testNamePrefixRe :: "rx list" where
  "testNamePrefixRe =
     [LitI (js ''test''), Opt (\<lambda>c. c = 95 \<or> isWhiteSpace c \<or> c = 45), LitI (js ''name''),
      Opt (\<lambda>c. c = 34 \<or> c = 39), Star isWhiteSpace, One (\<lambda>c. c = 62 \<or> c = 58),
      Star isWhiteSpace]"

definition testNameRe :: "rx list" where
  "testNameRe = testNamePrefixRe @ [CapPlus (\<lambda>c. c \<noteq> 60 \<and> c \<noteq> 10)]"

text \<open>\<^verbatim>\<open>m ? parseInt(m[1]) : 0\<close>\<close>

definition countOf :: "rx list \<Rightarrow> jsstring \<Rightarrow> nat" where
  "countOf re bodyText = (case matchGroup1 re bodyText of None \<Rightarrow> 0 | Some g \<Rightarrow> parseInt g)"

text \<open>\<^verbatim>\<open>doc.body?.textContent || htmlContent\<close>\<close>

definition bodyTextOr :: "document \<Rightarrow> jsstring \<Rightarrow> jsstring" where
  "bodyTextOr doc d =
     (case body doc of None \<Rightarrow> d | Some b \<Rightarrow> if textContent b = [] then d else textContent b)"

definition extractedName :: "jsstring list \<Rightarrow> nat \<Rightarrow> jsstring" where
  "extractedName testNameMatches i =
     (let nm = (if i < length testNameMatches
                then trim (removeFirst testNamePrefixRe (testNameMatches ! i)) else [])
      in if nm = [] then js ''Test Case '' @ numToString (i + 1) else nm)"

text \<open>The record the fallback loop pushes at \<open>i\<close>.\<close>

definition extractedCase :: "nat \<Rightarrow> nat \<Rightarrow> jsstring list \<Rightarrow> nat \<Rightarrow> TestCase" where
  "extractedCase failCount skipCount testNameMatches i =
     \<lparr>id_tc = js ''extracted-'' @ numToString (i + 1),
      name = extractedName testNameMatches i,
      className = js ''Extracted from report'',
      status = (if i < failCount then Fail else if i < failCount + skipCount then Skip else Pass),
      duration = Finite 0,
      errorMessage = None, stackTrace = None, logs = None, stepsToReproduce = None,
      screenshots = None, timestamp = None\<rparr>"

definition regexFallback :: "document \<Rightarrow> jsstring \<Rightarrow> TestCase list" where
  "regexFallback doc htmlContent =
     (let bodyText = bodyTextOr doc htmlContent;
          passCount = countOf passRe bodyText;
          failCount = countOf failRe bodyText;
          skipCount = countOf skipRe bodyText;
          testNameMatches = matchAll testNameRe 0 htmlContent
      in map (extractedCase failCount skipCount testNameMatches)
           [0 ..< max (max (passCount + failCount + skipCount) (length testNameMatches)) 1])"

subsection \<open>parseSparkExtentReport\<close>

text \<open>The parser returns the records of the structural pass, those of the regex
  extraction when there are none; it does not return when the structural pass ends in a
  TypeError.\<close>

definition parseSparkExtentReport ::
  "platform \<Rightarrow> (nat \<Rightarrow> jsstring) \<Rightarrow> jsstring \<Rightarrow> TestCase list option" where
  "parseSparkExtentReport P clock htmlContent =
     (let doc = parseFromString P htmlContent
      in do { testCases \<leftarrow> structuralPass P clock doc;
              Some (if length testCases = 0 then testCases @ regexFallback doc htmlContent
                    else testCases) })"

section \<open>The second parser\<close>

text \<open>
  The repository has a second file with a function of the same name, a shorter parser
  without steps and screenshots, that guards the error details by the status. Its
  definitions carry the suffix \<open>_v2\<close>.
\<close>

definition testNodeSelector_v2 :: selector where
  "testNodeSelector_v2 = [cls ''test-content'', cls ''test'', [[Attr (js ''data-test'')]]]"

definition nameSelector_v2 :: selector where
  "nameSelector_v2 = [cls ''test-name'', cls ''name'', tag ''h5'', cls ''card-title'']"

definition statusSelector_v2 :: selector where
  "statusSelector_v2 = [cls ''status'', cls ''badge'', classHas ''status'']"

definition logSelector_v2 :: selector where
  "logSelector_v2 = [cls ''log'', cls ''step'', tag ''pre'', tag ''code'']"

definition durationSelector_v2 :: selector where
  "durationSelector_v2 = [cls ''duration'', cls ''time'', classHas ''time'']"

definition classNameSelector_v2 :: selector where
  "classNameSelector_v2 = [cls ''class-name'', cls ''category'', cls ''test-class'']"

text \<open>\<^verbatim>\<open>el?.textContent\<close>, with \<open>f\<close> applied, \<^verbatim>\<open>|| d\<close>.\<close>

definition textOr ::
  "platform \<Rightarrow> (jsstring \<Rightarrow> jsstring) \<Rightarrow> element option \<Rightarrow> jsstring \<Rightarrow> jsstring option" where
  "textOr P f el d =
     (case el of
        None \<Rightarrow> Some d
      | Some e \<Rightarrow> do { t \<leftarrow> textContentOf P e; Some (if f t = [] then d else f t) })"

text \<open>The status, from the text of the status element and the class of the node, both in
  lower case.\<close>

definition statusOf_v2 :: "jsstring \<Rightarrow> jsstring \<Rightarrow> Status" where
  "statusOf_v2 statusText nodeClasses =
     (if js_includes statusText (js ''fail'') \<or> js_includes statusText (js ''error'') \<or>
         js_includes nodeClasses (js ''fail'') \<or> js_includes nodeClasses (js ''error'')
      then Fail
      else if js_includes statusText (js ''skip'') \<or> js_includes nodeClasses (js ''skip'')
      then Skip
      else Pass)"

text \<open>The body of the loop over the log nodes, on the error message, the stack trace and
  the logs, and on the trimmed text of the log node; \<open>st\<close> is the status found before.\<close>

definition logStep_v2 ::
  "Status \<Rightarrow> jsstring \<times> jsstring \<times> jsstring list \<Rightarrow> jsstring \<Rightarrow> jsstring \<times> jsstring \<times> jsstring list" where
  "logStep_v2 st acc text =
     (case acc of (msg, trace, lgs) \<Rightarrow>
        if text \<noteq> [] then
          (if st = Fail then
             (if msg = [] \<and>
                   (js_includes text (js ''AssertionError'') \<or> js_includes text (js ''expected'') \<or>
                    js_includes text (js ''Error:''))
              then firstLine text else msg,
              if js_includes text (js ''Exception'') \<or> js_includes text (js ''Error'') \<or>
                 js_includes text (js ''at '')
              then (if trace = [] then text else trace @ [10] @ text)
              else trace,
              lgs @ [text])
           else (msg, trace, lgs @ [text]))
        else acc)"

text \<open>The body of the loop over the test nodes.\<close>

definition testCaseOf_v2 ::
  "platform \<Rightarrow> (nat \<Rightarrow> jsstring) \<Rightarrow> document \<Rightarrow> nat \<Rightarrow> nat \<times> element \<Rightarrow> TestCase option" where
  "testCaseOf_v2 P clock doc count inode =
     do { nameEl \<leftarrow> querySelectorOf P doc (snd inode) nameSelector_v2;
          statusEl \<leftarrow> querySelectorOf P doc (snd inode) statusSelector_v2;
          logNodes \<leftarrow> querySelectorAllOf P doc (snd inode) logSelector_v2;
          statusText \<leftarrow> textOr P (toLowerCase P) statusEl [];
          c \<leftarrow> classNameOf P (snd inode);
          let st = statusOf_v2 statusText (toLowerCase P c);
          texts \<leftarrow> readAll (textContentOf P) logNodes;
          let errs = foldl (logStep_v2 st) ([], [], []) (map trim texts);
          durationEl \<leftarrow> querySelectorOf P doc (snd inode) durationSelector_v2;
          durationText \<leftarrow> durationTextOf P durationEl;
          classNameEl \<leftarrow> querySelectorOf P doc (snd inode) classNameSelector_v2;
          cn \<leftarrow> textOr P trim classNameEl (js ''Unknown Class'');
          nm \<leftarrow> textOr P trim nameEl (js ''Test Case '' @ numToString (fst inode + 1));
          Some \<lparr>id_tc = js ''test-'' @ numToString (fst inode + 1),
                name = nm,
                className = cn,
                status = st,
                duration = parseDuration P durationText,
                errorMessage = orUndefined (fst errs),
                stackTrace = orUndefined (fst (snd errs)),
                logs = orUndefined (snd (snd errs)),
                stepsToReproduce = None,
                screenshots = None,
                timestamp = Some (clock count)\<rparr> }"

fun structuralLoop_v2 ::
  "platform \<Rightarrow> (nat \<Rightarrow> jsstring) \<Rightarrow> document \<Rightarrow> TestCase list \<Rightarrow> (nat \<times> element) list \<Rightarrow>
   TestCase list option" where
  "structuralLoop_v2 P clock doc testCases [] = Some testCases"
| "structuralLoop_v2 P clock doc testCases (inode # rest) =
     do { pushed \<leftarrow> testCaseOf_v2 P clock doc (length testCases) inode;
          structuralLoop_v2 P clock doc (testCases @ [pushed]) rest }"

definition structuralPass_v2 ::
  "platform \<Rightarrow> (nat \<Rightarrow> jsstring) \<Rightarrow> document \<Rightarrow> TestCase list option" where
  "structuralPass_v2 P clock doc =
     structuralLoop_v2 P clock doc [] (enumerate 0 (docQuerySelectorAll doc testNodeSelector_v2))"

text \<open>\<^verbatim>\<open>/pass[ed]*\s*[:\s]*(\d+)/i\<close>, \<^verbatim>\<open>/fail[ed]*\s*[:\s]*(\d+)/i\<close> and
  \<^verbatim>\<open>/skip[ped]*\s*[:\s]*(\d+)/i\<close>\<close>

definition countRe_v2 :: "string \<Rightarrow> string \<Rightarrow> rx list" where
  "countRe_v2 word letters =
     [LitI (js word), Star (\<lambda>c. asciiUpper c \<in> set (map asciiUpper (js letters))),
      Star isWhiteSpace, Star (\<lambda>c. c = 58 \<or> isWhiteSpace c), CapPlus isDigit]"

definition summaryCase_v2 :: "string \<Rightarrow> string \<Rightarrow> Status \<Rightarrow> jsstring option \<Rightarrow> nat \<Rightarrow> TestCase" where
  "summaryCase_v2 idPrefix namePrefix st err i =
     \<lparr>id_tc = js idPrefix @ numToString (i + 1),
      name = js namePrefix @ numToString (i + 1),
      className = js ''Parsed from summary'',
      status = st, duration = Finite 0, errorMessage = err,
      stackTrace = None, logs = None, stepsToReproduce = None, screenshots = None,
      timestamp = None\<rparr>"

definition summaryFallback_v2 :: "document \<Rightarrow> TestCase list" where
  "summaryFallback_v2 doc =
     (let bodyText = bodyTextOr doc [];
          passCount = countOf (countRe_v2 ''pass'' ''ed'') bodyText;
          failCount = countOf (countRe_v2 ''fail'' ''ed'') bodyText;
          skipCount = countOf (countRe_v2 ''skip'' ''ped'') bodyText
      in map (summaryCase_v2 ''pass-'' ''Passed Test '' Pass None) [0 ..< passCount] @
         map (summaryCase_v2 ''fail-'' ''Failed Test '' Fail
                (Some (js ''Error details not available from summary''))) [0 ..< failCount] @
         map (summaryCase_v2 ''skip-'' ''Skipped Test '' Skip None) [0 ..< skipCount])"

definition parseSparkExtentReport_v2 ::
  "platform \<Rightarrow> (nat \<Rightarrow> jsstring) \<Rightarrow> jsstring \<Rightarrow> TestCase list option" where
  "parseSparkExtentReport_v2 P clock htmlContent =
     (let doc = parseFromString P htmlContent
      in do { testCases \<leftarrow> structuralPass_v2 P clock doc;
              Some (if length testCases = 0 then testCases @ summaryFallback_v2 doc
                    else testCases) })"

section \<open>The analysis boundary\<close>

text \<open>
  The request handler of the analyze-report function. It is modelled on a request whose
  test cases are test case records, with what it receives from outside as arguments:
  the API key of the environment, and what the call of the AI gateway gives back. The
  prompt it sends to the gateway is not modelled; the response depends on it only
  through the gateway's reply. JSON values are the values of \<^verbatim>\<open>JSON.parse\<close> and the
  values the handler hands to \<^verbatim>\<open>JSON.stringify\<close> for the bodies of its responses.
\<close>

datatype json =
    JNull
  | JBool bool
  | JNum number
  | JStr jsstring
  | JArr "json list"
  | JObj "(jsstring \<times> json) list"

text \<open>
  What the handler takes from its runtime: \<^verbatim>\<open>JSON.parse\<close> (\<open>None\<close> when it throws),
  the sum, the quotient and the product of two doubles, each rounded as the runtime
  rounds it, \<^verbatim>\<open>x.toFixed(1)\<close>, and the message of the TypeError thrown on a reply of
  the wrong shape.
\<close>

record runtime =
  jsonParse :: "jsstring \<Rightarrow> json option"
  numAdd :: "number \<Rightarrow> number \<Rightarrow> number"
  numDiv :: "number \<Rightarrow> number \<Rightarrow> number"
  numMul :: "number \<Rightarrow> number \<Rightarrow> number"
  toFixed1 :: "number \<Rightarrow> jsstring"
  typeErrorMessage :: jsstring

text \<open>
  The body of the request: unreadable (\<^verbatim>\<open>req.json()\<close> throws, with this message), or
  its \<^verbatim>\<open>testCases\<close> (\<open>None\<close> when missing or not an array) and \<^verbatim>\<open>rawContent\<close>.
\<close>

datatype payload =
    Unreadable jsstring
  | Payload "TestCase list option" "jsstring option"

datatype request = Request jsstring payload

text \<open>
  The call of the gateway: a status that is not ok; a failure of \<^verbatim>\<open>fetch\<close> or of
  reading the body, with its message; or the content of the first choice of the reply
  (\<open>None\<close> when the reply has no such string).
\<close>

datatype gateway =
    GatewayStatus nat
  | GatewayUnreadable jsstring
  | GatewayReply "jsstring option"

datatype response = Response nat json

definition errorResponse :: "nat \<Rightarrow> jsstring \<Rightarrow> response" where
  "errorResponse code msg = Response code (JObj [(js ''error'', JStr msg)])"

subsection \<open>Test cases as JSON\<close>

definition optionalField :: "string \<Rightarrow> 'a option \<Rightarrow> ('a \<Rightarrow> json) \<Rightarrow> (jsstring \<times> json) list" where
  "optionalField k v f = (case v of None \<Rightarrow> [] | Some x \<Rightarrow> [(js k, f x)])"

fun statusName :: "Status \<Rightarrow> jsstring" where
  "statusName Pass = js ''pass''"
| "statusName Fail = js ''fail''"
| "statusName Skip = js ''skip''"

definition screenshotJson :: "Screenshot \<Rightarrow> json" where
  "screenshotJson s =
     JObj [(js ''name'', JStr (name_img s)), (js ''mimeType'', JStr (mimeType s)),
           (js ''base64Data'', JStr (base64Data s))]"

definition testCaseJson :: "TestCase \<Rightarrow> json" where
  "testCaseJson t =
     JObj ([(js ''id'', JStr (id_tc t)), (js ''name'', JStr (name t)),
            (js ''className'', JStr (className t)), (js ''status'', JStr (statusName (status t))),
            (js ''duration'', JNum (duration t))] @
           optionalField ''errorMessage'' (errorMessage t) JStr @
           optionalField ''stackTrace'' (stackTrace t) JStr @
           optionalField ''logs'' (logs t) (\<lambda>l. JArr (map JStr l)) @
           optionalField ''stepsToReproduce'' (stepsToReproduce t) (\<lambda>l. JArr (map JStr l)) @
           optionalField ''screenshots'' (screenshots t) (\<lambda>l. JArr (map screenshotJson l)) @
           optionalField ''timestamp'' (timestamp t) JStr)"

subsection \<open>The fallback analysis\<close>

text \<open>\<^verbatim>\<open>s || 'text'\<close> on an optional string.\<close>

definition orElse :: "jsstring option \<Rightarrow> string \<Rightarrow> jsstring" where
  "orElse s d = (case s of None \<Rightarrow> js d | Some x \<Rightarrow> if x = [] then js d else x)"

definition fallbackFailure :: "TestCase \<Rightarrow> json" where
  "fallbackFailure t =
     JObj [(js ''testId'', JStr (id_tc t)),
           (js ''rootCause'',
            JStr (orElse (errorMessage t) ''Unable to determine root cause automatically'')),
           (js ''category'', JStr (js ''automation_script_defect'')),
           (js ''confidence'', JStr (js ''low'')),
           (js ''evidence'', JArr [JStr (orElse (errorMessage t) ''No error message available'')]),
           (js ''suggestedFix'', JStr (js ''Review the test implementation and logs manually''))]"

definition manualReview :: json where
  "manualReview =
     JObj [(js ''priority'', JStr (js ''high'')),
           (js ''title'', JStr (js ''Manual Review Required'')),
           (js ''description'',
            JStr (js ''AI analysis was unable to parse the failures completely. Manual review is recommended.'')),
           (js ''actionItems'',
            JArr [JStr (js ''Review each failure manually''),
                  JStr (js ''Check test logs for more context'')])]"

definition fallbackAnalysis :: "TestCase list \<Rightarrow> json" where
  "fallbackAnalysis failedTests =
     JObj [(js ''failures'', JArr (map fallbackFailure failedTests)),
           (js ''patterns'', JArr []),
           (js ''recommendations'', JArr [manualReview])]"

subsection \<open>Reading the reply\<close>

text \<open>\<^verbatim>\<open>/```(?:json)?\s*([\s\S]*?)```/\<close>\<close>

definition fenceRe :: "rx list" where
  "fenceRe =
     [Lit (js ''```''), OptAlt [js ''json''], Star isWhiteSpace, CapLazyStar (\<lambda>c. True),
      Lit (js ''```'')]"

text \<open>The text handed to \<^verbatim>\<open>JSON.parse\<close>: the inside of the first code fence, trimmed,
  or the whole content.\<close>

definition jsonText :: "jsstring \<Rightarrow> jsstring" where
  "jsonText content =
     (case exec fenceRe content of
        None \<Rightarrow> content
      | Some (i, m, caps) \<Rightarrow> (case caps of [] \<Rightarrow> content | c # cs \<Rightarrow> trim c))"

text \<open>The \<^verbatim>\<open>try\<close> block: \<open>None\<close> when it throws, on a content that is no string
  (\<^verbatim>\<open>content.match\<close>) or no JSON (\<^verbatim>\<open>JSON.parse\<close>).\<close>

definition parseReply :: "runtime \<Rightarrow> jsstring option \<Rightarrow> json option" where
  "parseReply R content = (case content of None \<Rightarrow> None | Some c \<Rightarrow> jsonParse R (jsonText c))"

definition analysisOf :: "runtime \<Rightarrow> jsstring option \<Rightarrow> TestCase list \<Rightarrow> json" where
  "analysisOf R content failedTests =
     (case parseReply R content of None \<Rightarrow> fallbackAnalysis failedTests | Some v \<Rightarrow> v)"

subsection \<open>The result\<close>

text \<open>\<^verbatim>\<open>v.k\<close> on a value that is not \<^verbatim>\<open>null\<close>, for the property names the handler reads
  (\<open>None\<close> is \<^verbatim>\<open>undefined\<close>); the keys of an object are distinct.\<close>

fun propOf :: "json \<Rightarrow> string \<Rightarrow> json option" where
  "propOf (JObj kvs) k = map_of kvs (js k)"
| "propOf v k = None"

fun truthy :: "json \<Rightarrow> bool" where
  "truthy JNull = False"
| "truthy (JBool b) = b"
| "truthy (JNum x) = (x \<noteq> Finite 0 \<and> x \<noteq> NaN)"
| "truthy (JStr s) = (s \<noteq> [])"
| "truthy (JArr vs) = True"
| "truthy (JObj kvs) = True"

text \<open>\<^verbatim>\<open>v || d\<close>\<close>

definition orJson :: "json option \<Rightarrow> json \<Rightarrow> json" where
  "orJson v d = (case v of None \<Rightarrow> d | Some x \<Rightarrow> if truthy x then x else d)"

text \<open>\<^verbatim>\<open>failedTests.find(t => t.id === f.testId) || failedTests[0]\<close>\<close>

definition testCaseFor :: "TestCase list \<Rightarrow> json \<Rightarrow> TestCase option" where
  "testCaseFor failedTests f =
     (case find (\<lambda>t. propOf f ''testId'' = Some (JStr (id_tc t))) failedTests of
        Some t \<Rightarrow> Some t
      | None \<Rightarrow> (case failedTests of [] \<Rightarrow> None | t # ts \<Rightarrow> Some t))"

text \<open>The object built for one entry \<open>f\<close> of the failures, \<open>f\<close> not \<^verbatim>\<open>null\<close>; a property
  whose value is \<^verbatim>\<open>undefined\<close> is not in the body of the response.\<close>

definition mapFailure :: "TestCase list \<Rightarrow> json \<Rightarrow> json" where
  "mapFailure failedTests f =
     JObj (optionalField ''testCase'' (testCaseFor failedTests f) testCaseJson @
           optionalField ''rootCause'' (propOf f ''rootCause'') (\<lambda>v. v) @
           optionalField ''category'' (propOf f ''category'') (\<lambda>v. v) @
           optionalField ''confidence'' (propOf f ''confidence'') (\<lambda>v. v) @
           [(js ''evidence'', orJson (propOf f ''evidence'') (JArr []))] @
           optionalField ''suggestedFix'' (propOf f ''suggestedFix'') (\<lambda>v. v))"

text \<open>\<^verbatim>\<open>analysisResult.failures.map(...)\<close>: \<open>None\<close> when it throws a TypeError, on a
  result that is no object, on failures that are no array, on an entry that is
  \<^verbatim>\<open>null\<close>.\<close>

definition mappedFailures :: "TestCase list \<Rightarrow> json \<Rightarrow> json list option" where
  "mappedFailures failedTests analysisResult =
     (case propOf analysisResult ''failures'' of
        Some (JArr fs) \<Rightarrow> if JNull \<in> set fs then None else Some (map (mapFailure failedTests) fs)
      | _ \<Rightarrow> None)"

text \<open>\<^verbatim>\<open>testCases.filter(t => t.status === 'fail')\<close>, and the same for the two other
  statuses.\<close>

definition withStatus :: "Status \<Rightarrow> TestCase list \<Rightarrow> TestCase list" where
  "withStatus st testCases = filter (\<lambda>t. status t = st) testCases"

text \<open>\<^verbatim>\<open>// Calculate summary\<close>: the total duration is the sum the loop of
  \<^verbatim>\<open>reduce\<close> builds from 0, one rounded addition for each test case; a length is a
  number without rounding.\<close>

definition lengthOf :: "'a list \<Rightarrow> number" where
  "lengthOf xs = Finite (of_nat (length xs))"

definition summaryOf :: "runtime \<Rightarrow> TestCase list \<Rightarrow> json" where
  "summaryOf R testCases =
     (let totalDuration =
            foldl (\<lambda>sum t. numAdd R sum (orZero (duration t))) (Finite 0) testCases
      in JObj [(js ''total'', JNum (lengthOf testCases)),
               (js ''passed'', JNum (lengthOf (withStatus Pass testCases))),
               (js ''failed'', JNum (lengthOf (withStatus Fail testCases))),
               (js ''skipped'', JNum (lengthOf (withStatus Skip testCases))),
               (js ''duration'',
                JStr (if exceeds totalDuration 60
                      then toFixed1 R (numDiv R totalDuration (Finite 60)) @ js ''m''
                      else toFixed1 R totalDuration @ js ''s'')),
               (js ''passRate'',
                JNum (if 0 < length testCases
                      then numMul R (numDiv R (lengthOf (withStatus Pass testCases))
                                       (lengthOf testCases)) (Finite 100)
                      else Finite 0))])"

definition respond :: "runtime \<Rightarrow> TestCase list \<Rightarrow> json \<Rightarrow> response" where
  "respond R testCases analysisResult =
     (case mappedFailures (withStatus Fail testCases) analysisResult of
        None \<Rightarrow> errorResponse 500 (typeErrorMessage R)
      | Some fs \<Rightarrow>
          Response 200
            (JObj [(js ''summary'', summaryOf R testCases),
                   (js ''failures'', JArr fs),
                   (js ''patterns'', orJson (propOf analysisResult ''patterns'') (JArr [])),
                   (js ''recommendations'',
                    orJson (propOf analysisResult ''recommendations'') (JArr []))]))"

subsection \<open>The handler\<close>

definition handler :: "runtime \<Rightarrow> jsstring option \<Rightarrow> gateway \<Rightarrow> request \<Rightarrow> response" where
  "handler R apiKey gw req =
     (case req of Request method pl \<Rightarrow>
        if method = js ''OPTIONS'' then Response 200 JNull
        else
          (case pl of
             Unreadable msg \<Rightarrow> errorResponse 500 msg
           | Payload testCases rawContent \<Rightarrow>
               (case testCases of
                  None \<Rightarrow> errorResponse 400 (js ''Test cases array is required'')
                | Some tcs \<Rightarrow>
                    if apiKey = None \<or> apiKey = Some [] then
                      errorResponse 500 (js ''AI service not configured'')
                    else
                      (case gw of
                         GatewayStatus code \<Rightarrow>
                           if code = 429 then
                             errorResponse 429
                               (js ''Rate limit exceeded. Please try again in a moment.'')
                           else if code = 402 then
                             errorResponse 402
                               (js ''AI credits exhausted. Please add credits to continue.'')
                           else errorResponse 500 (js ''AI analysis failed'')
                       | GatewayUnreadable msg \<Rightarrow> errorResponse 500 msg
                       | GatewayReply content \<Rightarrow>
                           respond R tcs (analysisOf R content (withStatus Fail tcs))))))"

section \<open>Example documents\<close>

text \<open>
  The examples are ASCII documents without a doctype, as the HTML parser builds them:
  an html element with an empty head and a body, in quirks mode. On ASCII text
  \<^verbatim>\<open>toLowerCase()\<close> maps the letters A to Z to a to z and nothing else; the URLs of
  the examples resolve to themselves, their decimal literals are doubles, and they
  have no form element.
\<close>

definition asciiLower :: "nat \<Rightarrow> nat" where
  "asciiLower c = (if 65 \<le> c \<and> c \<le> 90 then c + 32 else c)"

definition elem :: "string \<Rightarrow> (string \<times> string) list \<Rightarrow> node list \<Rightarrow> node" where
  "elem t as cs = Element HTML (js t) (map (\<lambda>a. (js (fst a), js (snd a))) as) cs"

text \<open>An element of SVG: what the parser builds for an \<^verbatim>\<open>svg\<close> tag and for the tags
  inside it.\<close>

definition svgElem :: "string \<Rightarrow> (string \<times> string) list \<Rightarrow> node list \<Rightarrow> node" where
  "svgElem t as cs = Element SVG (js t) (map (\<lambda>a. (js (fst a), js (snd a))) as) cs"

definition txt_node :: "string \<Rightarrow> node" where
  "txt_node s = Text (js s)"

definition page :: "node list \<Rightarrow> document" where
  "page cs =
     \<lparr>quirksMode = True,
      documentElement = elem ''html'' [] [elem ''head'' [] [], elem ''body'' [] cs]\<rparr>"

text \<open>A browser whose parser returns \<open>doc\<close>.\<close>

definition browser :: "document \<Rightarrow> platform" where
  "browser doc =
     \<lparr>parseFromString = (\<lambda>html. doc), toLowerCase = map asciiLower, resolveURL = (\<lambda>u. u),
      toDouble = Finite, formProperty = (\<lambda>n k. False), svgHref = (\<lambda>t. False)\<rparr>"

text \<open>A clock that stands still.\<close>

definition fixedClock :: "nat \<Rightarrow> jsstring" where
  "fixedClock k = js ''2026-01-01T00:00:00.000Z''"

text \<open>The element that is the \<open>k\<close>-th child of the body of \<open>page cs\<close>, in its place
  (for \<open>k\<close> below the number of children, counted from 0).\<close>

definition bodyChild :: "node list \<Rightarrow> nat \<Rightarrow> element" where
  "bodyChild cs k =
     ((cs ! k, k = 0),
      [(elem ''body'' [] cs, False),
       (elem ''html'' [] [elem ''head'' [] [], elem ''body'' [] cs], True)])"

text \<open>The \<open>k\<close>-th child of the \<open>j\<close>-th child of the body of \<open>page cs\<close>, in its place.\<close>

definition grandChild :: "node list \<Rightarrow> nat \<Rightarrow> nat \<Rightarrow> element" where
  "grandChild cs j k =
     ((childNodes (cs ! j) ! k, k = 0), fst (bodyChild cs j) # snd (bodyChild cs j))"

text \<open>Two nodes of which only the first has the class \<open>test\<close>, both a class that
  contains \<open>test\<close>.\<close>

definition cascadeExample :: "node list" where
  "cascadeExample =
     [elem ''div'' [(''class'', ''test'')] [txt_node ''Login works''],
      elem ''div'' [(''class'', ''testcase'')] [txt_node ''Logout works'']]"

text \<open>A failed node whose badge says Passed.\<close>

definition overruledBadge :: "node list" where
  "overruledBadge =
     [elem ''div'' [(''class'', ''test fail'')]
        [elem ''span'' [(''class'', ''badge'')] [txt_node ''Passed''], txt_node ''Login works'']]"

text \<open>A node that reads as passed, with one badge of class \<open>badge-danger\<close>.\<close>

definition dangerBadge :: "node list" where
  "dangerBadge =
     [elem ''div'' [(''class'', ''test'')]
        [elem ''span'' [(''class'', ''badge badge-danger'')] [txt_node ''1''],
         txt_node ''Login passed'']]"

text \<open>A node that reads as passed, with two badges: the first says Passed, the second
  has the class \<open>badge-danger\<close> and the text Fail (its last two letters in bold).\<close>

definition twoBadges :: "node list" where
  "twoBadges =
     [elem ''div'' [(''class'', ''test'')]
        [elem ''span'' [(''class'', ''badge'')] [txt_node ''Passed''],
         elem ''span'' [(''class'', ''badge badge-danger'')]
           [txt_node ''Fa'', elem ''b'' [] [txt_node ''il'']],
         txt_node ''Login works'']]"

text \<open>Two test nodes, the first with a name of two letters.\<close>

definition shortName :: "node list" where
  "shortName =
     [elem ''div'' [(''class'', ''test'')] [txt_node ''ab''],
      elem ''div'' [(''class'', ''test'')] [txt_node ''abc'']]"

text \<open>A test node that reads as passed and holds a \<^verbatim>\<open>pre\<close> element with a text that is
  no failure.\<close>

definition passWithError :: "node list" where
  "passWithError =
     [elem ''div'' [(''class'', ''test'')]
        [txt_node ''Login works'', elem ''pre'' [] [txt_node ''Expected 5 at least'']]]"

text \<open>Documents without any element of a test report.\<close>

definition noResults :: "node list" where
  "noResults = [txt_node ''No results'']"

definition summaryOnly :: "node list" where
  "summaryOnly = [txt_node ''Failed: 3, Passed: 7, Skipped: 2'']"

definition earlierCount :: "node list" where
  "earlierCount = [txt_node ''Passed 9 checks. Failed: 3, Passed: 7, Skipped: 2'']"

definition failPassSummary :: "node list" where
  "failPassSummary = [txt_node ''Failed: 1, Passed: 2'']"

text \<open>
  Elements of SVG where the parser reads a class: a failed node whose badge is an
  \<^verbatim>\<open>svg\<close> element with the title ok; a node with a badge that is an \<^verbatim>\<open>svg\<close> element
  of class \<open>badge-danger\<close>; a test node that is itself an \<^verbatim>\<open>svg\<close> element; and a
  node with a name of two letters and such a badge.
\<close>

definition svgBadge :: "node list" where
  "svgBadge =
     [elem ''div'' [(''class'', ''test fail'')]
        [svgElem ''svg'' [(''class'', ''badge'')] [svgElem ''title'' [] [txt_node ''ok'']],
         txt_node ''Login'']]"

definition svgDangerBadge :: "node list" where
  "svgDangerBadge =
     [elem ''div'' [(''class'', ''test'')]
        [svgElem ''svg'' [(''class'', ''badge badge-danger'')] [], txt_node ''Login works'']]"

definition svgNode :: "node list" where
  "svgNode =
     [svgElem ''svg'' [(''class'', ''fail-icon'')] [svgElem ''title'' [] [txt_node ''Login works'']]]"

definition svgInShortName :: "node list" where
  "svgInShortName =
     [elem ''span'' [(''class'', ''pass'')]
        [svgElem ''svg'' [(''class'', ''badge'')] [], txt_node ''ok'']]"

text \<open>A test node with a template whose contents hold the word fail.\<close>

definition templateNode :: "node list" where
  "templateNode =
     [elem ''div'' [(''class'', ''test'')]
        [txt_node ''Login works'', Template [] [elem ''b'' [] [txt_node ''fail'']]]]"

text \<open>
  Two test cases of a request, and a runtime for a reply that is no JSON: its
  \<^verbatim>\<open>JSON.parse\<close> throws; its arithmetic is exact on finite numbers, as that of doubles
  is on the durations and counts of the two test cases; its \<^verbatim>\<open>toFixed(1)\<close> is right on
  their total duration.
\<close>

fun exactly :: "(rat \<Rightarrow> rat \<Rightarrow> rat) \<Rightarrow> number \<Rightarrow> number \<Rightarrow> number" where
  "exactly f (Finite x) (Finite y) = Finite (f x y)"
| "exactly f x y = NaN"

definition failedLogin :: TestCase where
  "failedLogin =
     \<lparr>id_tc = js ''test-1'', name = js ''Login works'', className = js ''Test Suite'',
      status = Fail, duration = Finite (3 / 2), errorMessage = Some (js ''Expected 5''),
      stackTrace = None, logs = None, stepsToReproduce = None, screenshots = None,
      timestamp = None\<rparr>"

definition passedLogout :: TestCase where
  "passedLogout =
     \<lparr>id_tc = js ''test-2'', name = js ''Logout works'', className = js ''Test Suite'',
      status = Pass, duration = Finite 1, errorMessage = None,
      stackTrace = None, logs = None, stepsToReproduce = None, screenshots = None,
      timestamp = None\<rparr>"

definition noJson :: runtime where
  "noJson =
     \<lparr>jsonParse = (\<lambda>s. None),
      numAdd = exactly (\<lambda>x y. x + y), numDiv = exactly (\<lambda>x y. x / y),
      numMul = exactly (\<lambda>x y. x * y), toFixed1 = (\<lambda>x. js ''2.5''),
      typeErrorMessage = js ''TypeError''\<rparr>"

section \<open>What the properties are stated with\<close>

text \<open>The test nodes, with their indices, that pass the check on the name before the
  push: the name is read, and has more than two code units.\<close>

definition keptNodes :: "platform \<Rightarrow> document \<Rightarrow> (nat \<times> element) list" where
  "keptNodes P doc =
     filter (\<lambda>inode. case extractName P doc (snd inode) (fst inode) of
                        None \<Rightarrow> False
                      | Some nm \<Rightarrow> 2 < length nm)
       (enumerate 0 (findTestNodes doc))"

text \<open>The class attribute of the element contains \<open>w\<close>.\<close>

definition classContains :: "string \<Rightarrow> element \<Rightarrow> bool" where
  "classContains w e =
     (case getAttribute (nodeOf e) (js ''class'') of
        None \<Rightarrow> False
      | Some v \<Rightarrow> js_includes v (js w))"

text \<open>A record with its timestamp taken out.\<close>

definition withoutTimestamp :: "TestCase \<Rightarrow> TestCase" where
  "withoutTimestamp t = t\<lparr>timestamp := None\<rparr>"

text \<open>The first test case of the list with the id of \<open>t\<close>, which is \<open>t\<close> itself when
  \<open>t\<close> is in the list and the ids are distinct.\<close>

definition firstWithId :: "TestCase list \<Rightarrow> TestCase \<Rightarrow> TestCase" where
  "firstWithId failedTests t =
     (case find (\<lambda>u. id_tc u = id_tc t) failedTests of None \<Rightarrow> t | Some u \<Rightarrow> u)"

section \<open>Properties\<close>

subsection \<open>Evaluation\<close>

lemmas string_defs = js_def asciiLower_def asciiUpper_def isWhiteSpace_def isLineTerminator_def
  isAsciiWhitespace_def isDigit_def trim_def firstLine_def Let_def

lemmas regex_defs = startsWithI_def cut_def runs_def execAt_def matchGroup1_def removeFirst_def

lemmas dom_defs = elem_def svgElem_def txt_node_def page_def browser_def bodyChild_def
  grandChild_def getAttribute_def classAttribute_def voidElements_def rawTextElements_def
  serializeAttribute_def nodeOf_def descendants_def allElements_def body_def classList_def
  classEq_def matchesCompound_def matchesComplex_def matches_def docQuerySelectorAll_def
  querySelectorAll_def querySelector_def cls_def tag_def classHas_def

lemmas read_defs = shadowed_def textContentOf_def classNameOf_def innerHTMLOf_def
  querySelectorOf_def querySelectorAllOf_def srcOf_def hrefOf_def

lemmas status_defs = wholeNodeStatus_def badgeStatus_def extractStatus_def statusSelector_def

lemmas parser_defs = findTestNodes_def selectors_def statusIndicators_def nameSelectors_def
  extractName_def errorSelectors_def errorStep_def trimmedTexts_def extractErrors_def
  stepSelectors_def logSelector_def extractSteps_def imgSelectors_def dataUriRe_def
  screenshotOf_def extractScreenshots_def screenshotLinks_def linkLog_def linkLogs_def
  classSelectors_def extractClassName_def durationSelector_def parseDuration_def
  decimalPrefix_def durationTextOf_def extractDuration_def orUndefined_def testCaseOf_def
  structuralPass_def

lemmas count_defs = countRe_def passRe_def failRe_def skipRe_def testNamePrefixRe_def
  testNameRe_def countOf_def parseInt_def

lemma numToString_digit: "n < 10 \<Longrightarrow> numToString n = [48 + n]"
  by (subst numToString.simps) simp

lemma js_nonempty: "js (c # s) \<noteq> []"
  by (simp add: js_def)

text \<open>\<^verbatim>\<open>querySelector\<close> returns the first element \<^verbatim>\<open>querySelectorAll\<close> lists.\<close>

lemma querySelector_first:
  "querySelector doc e sel =
     (case querySelectorAll doc e sel of [] \<Rightarrow> None | x # xs \<Rightarrow> Some x)"
proof -
  have "find P xs = (case filter P xs of [] \<Rightarrow> None | x # ys \<Rightarrow> Some x)"
    for P and xs :: "element list"
    by (induction xs) simp_all
  then show ?thesis
    by (simp add: querySelector_def querySelectorAll_def)
qed

subsection \<open>Node selector cascade\<close>

lemma firstMatching_skip:
  "\<forall>s \<in> set pre. docQuerySelectorAll doc s = [] \<Longrightarrow>
   firstMatching doc (pre @ rest) = firstMatching doc rest"
  by (induction pre) simp_all

lemma firstMatching_hit:
  "docQuerySelectorAll doc sel \<noteq> [] \<Longrightarrow>
   firstMatching doc (sel # post) = docQuerySelectorAll doc sel"
  by simp

lemma firstMatching_none:
  "\<forall>s \<in> set sels. docQuerySelectorAll doc s = [] \<Longrightarrow> firstMatching doc sels = []"
  by (induction sels) simp_all

lemma statusIndicators_matches:
  "matches doc statusIndicators e =
     (classContains ''pass'' e \<or> classContains ''fail'' e \<or> classContains ''skip'' e \<or>
      classContains ''error'' e)"
  by (simp add: matches_def statusIndicators_def classHas_def matchesComplex_def
        matchesCompound_def classContains_def nodeOf_def js_nonempty split: option.splits)

text \<open>
  C7. The cascade returns the nodes of the first selector of its list that matches an
  element of the document, whatever the selectors after it match; when no selector of
  the list matches, it returns the elements whose class attribute contains \<open>pass\<close>,
  \<open>fail\<close>, \<open>skip\<close> or \<open>error\<close>.
\<close>

theorem cascade_first_match_wins:
  "(\<forall>pre sel post.
      selectors = pre @ sel # post \<and> (\<forall>s \<in> set pre. docQuerySelectorAll doc s = []) \<and>
      docQuerySelectorAll doc sel \<noteq> [] \<longrightarrow>
      findTestNodes doc = docQuerySelectorAll doc sel) \<and>
   ((\<forall>s \<in> set selectors. docQuerySelectorAll doc s = []) \<longrightarrow>
      findTestNodes doc =
        filter (\<lambda>e. classContains ''pass'' e \<or> classContains ''fail'' e \<or>
                     classContains ''skip'' e \<or> classContains ''error'' e)
          (allElements doc))"
proof (intro conjI allI impI)
  fix pre sel post
  assume h: "selectors = pre @ sel # post \<and> (\<forall>s \<in> set pre. docQuerySelectorAll doc s = []) \<and>
      docQuerySelectorAll doc sel \<noteq> []"
  then have "firstMatching doc selectors = docQuerySelectorAll doc sel"
    using firstMatching_skip [of pre doc "sel # post"] firstMatching_hit [of doc sel post]
    by simp
  with h show "findTestNodes doc = docQuerySelectorAll doc sel"
    by (simp add: findTestNodes_def)
next
  assume "\<forall>s \<in> set selectors. docQuerySelectorAll doc s = []"
  then have "firstMatching doc selectors = []"
    by (rule firstMatching_none)
  moreover have "matches doc statusIndicators =
      (\<lambda>e. classContains ''pass'' e \<or> classContains ''fail'' e \<or>
           classContains ''skip'' e \<or> classContains ''error'' e)"
    by (rule ext) (rule statusIndicators_matches)
  ultimately show "findTestNodes doc =
        filter (\<lambda>e. classContains ''pass'' e \<or> classContains ''fail'' e \<or>
                     classContains ''skip'' e \<or> classContains ''error'' e)
          (allElements doc)"
    by (simp add: findTestNodes_def docQuerySelectorAll_def)
qed

lemma cascadeExample_first:
  "docQuerySelectorAll (page cascadeExample) [cls ''test''] = [bodyChild cascadeExample 0]"
  by (simp add: string_defs dom_defs cascadeExample_def)

lemma cascadeExample_later:
  "docQuerySelectorAll (page cascadeExample)
     [[[Tag (js ''div''), AttrContains (js ''class'') (js ''test'')]]] =
   [bodyChild cascadeExample 0, bodyChild cascadeExample 1]"
  by (simp add: string_defs dom_defs cascadeExample_def)

text \<open>
  On the example the first selector, \<^verbatim>\<open>.test\<close>, matches one node and wins, although the
  fifth, \<^verbatim>\<open>div[class*="test"]\<close>, matches two.
\<close>

theorem cascade_first_match_wins_witness:
  "findTestNodes (page cascadeExample) = [bodyChild cascadeExample 0] \<and>
   docQuerySelectorAll (page cascadeExample)
     [[[Tag (js ''div''), AttrContains (js ''class'') (js ''test'')]]] =
   [bodyChild cascadeExample 0, bodyChild cascadeExample 1]"
proof -
  have "selectors = [] @ [cls ''test''] # tl selectors"
    by (simp add: selectors_def)
  then show ?thesis
    using cascade_first_match_wins [of "page cascadeExample"] cascadeExample_first
      cascadeExample_later
    by (metis empty_iff list.set(1) list.distinct(1))
qed

subsection \<open>Status classifier\<close>

text \<open>
  The check of the badge goes one way: what it returns is the verdict it was given,
  fail or skip, so it returns pass only when it was given pass, and so does the whole
  classifier. When the whole node reads as failed and the text and the class of the
  badge found are strings with neither a fail nor a skip indicator, the status stays
  fail.
\<close>

lemma badge_check_one_way:
  "(badgeStatus P verdict statusEl = Some Pass \<longrightarrow> verdict = Pass) \<and>
   (badgeStatus P verdict statusEl = Some st \<longrightarrow> st = verdict \<or> st = Fail \<or> st = Skip) \<and>
   (extractStatus P doc node = Some Pass \<longrightarrow> wholeNodeStatus P node = Some Pass)"
  by (auto simp: badgeStatus_def extractStatus_def Let_def
           split: option.splits if_splits bind_splits)

lemma failed_node_stays_failed:
  "wholeNodeStatus P node = Some Fail \<Longrightarrow>
   querySelectorOf P doc node statusSelector = Some (Some el) \<Longrightarrow>
   textContentOf P el = Some t \<Longrightarrow> classNameOf P el = Some c \<Longrightarrow>
   \<not> js_includes (toLowerCase P t) (js ''skip'') \<Longrightarrow>
   \<not> js_includes (toLowerCase P c) (js ''skip'') \<Longrightarrow>
   \<not> js_includes (toLowerCase P c) (js ''warning'') \<Longrightarrow>
   extractStatus P doc node = Some Fail"
  by (simp add: extractStatus_def badgeStatus_def Let_def)

lemma overruledBadge_status:
  "wholeNodeStatus (browser (page overruledBadge)) (bodyChild overruledBadge 0) = Some Fail \<and>
   querySelector (page overruledBadge) (bodyChild overruledBadge 0) statusSelector =
     Some (grandChild overruledBadge 0 0) \<and>
   extractStatus (browser (page overruledBadge)) (page overruledBadge)
     (bodyChild overruledBadge 0) = Some Fail"
  by (simp add: string_defs dom_defs read_defs overruledBadge_def status_defs)

lemma svgBadge_whole:
  "wholeNodeStatus (browser (page svgBadge)) (bodyChild svgBadge 0) = Some Fail"
  by (simp add: string_defs dom_defs read_defs svgBadge_def wholeNodeStatus_def)

lemma svgBadge_query:
  "querySelector (page svgBadge) (bodyChild svgBadge 0) statusSelector =
     Some (grandChild svgBadge 0 0)"
  by (simp add: string_defs dom_defs svgBadge_def statusSelector_def)

lemma svgBadge_badge:
  "namespaceOf (nodeOf (grandChild svgBadge 0 0)) = SVG \<and>
   textContent (nodeOf (grandChild svgBadge 0 0)) = js ''ok'' \<and>
   classAttribute (nodeOf (grandChild svgBadge 0 0)) = js ''badge'' \<and>
   classNameOf (browser (page svgBadge)) (grandChild svgBadge 0 0) = None"
  by (simp add: string_defs dom_defs read_defs svgBadge_def)

lemma svgBadge_status:
  "extractStatus (browser (page svgBadge)) (page svgBadge) (bodyChild svgBadge 0) = None"
  by (simp add: string_defs dom_defs read_defs svgBadge_def status_defs)

lemma svgBadge_nodes: "findTestNodes (page svgBadge) = [bodyChild svgBadge 0]"
  by (simp add: string_defs dom_defs svgBadge_def findTestNodes_def selectors_def)

lemma svgBadge_name:
  "extractName (browser (page svgBadge)) (page svgBadge) (bodyChild svgBadge 0) 0 =
     Some (js ''okLogin'')"
  by (simp add: string_defs dom_defs read_defs svgBadge_def extractName_def nameSelectors_def)

lemma svgBadge_parse:
  "parseSparkExtentReport (browser (page svgBadge)) clock h = None"
  using svgBadge_nodes svgBadge_name svgBadge_status
  by (simp add: parseSparkExtentReport_def browser_def structuralPass_def enumerate_eq_zip
        testCaseOf_def)

text \<open>
  C10 fails on the code where the badge is an element of SVG. For the document
  \<^verbatim>\<open><div class="test fail"><svg class="badge"><title>ok</title></svg>Login</div>\<close> the
  whole node reads as failed, and the badge the classifier finds is the \<^verbatim>\<open>svg\<close>
  element, with the text ok and the class \<open>badge\<close>: no fail and no skip indicator. But
  the \<^verbatim>\<open>className\<close> of that element is no string, the classifier throws a TypeError
  where it lower-cases it, and the parser returns no status and no record at all.
\<close>

theorem svg_badge_throws:
  "findTestNodes (page svgBadge) = [bodyChild svgBadge 0] \<and>
   wholeNodeStatus (browser (page svgBadge)) (bodyChild svgBadge 0) = Some Fail \<and>
   querySelector (page svgBadge) (bodyChild svgBadge 0) statusSelector =
     Some (grandChild svgBadge 0 0) \<and>
   namespaceOf (nodeOf (grandChild svgBadge 0 0)) = SVG \<and>
   textContent (nodeOf (grandChild svgBadge 0 0)) = js ''ok'' \<and>
   classAttribute (nodeOf (grandChild svgBadge 0 0)) = js ''badge'' \<and>
   extractStatus (browser (page svgBadge)) (page svgBadge) (bodyChild svgBadge 0) = None \<and>
   parseSparkExtentReport (browser (page svgBadge)) fixedClock
     (js ''<div class=\"test fail\"><svg class=\"badge\"><title>ok</title></svg>Login</div>'') =
     None"
  using svgBadge_nodes svgBadge_whole svgBadge_query svgBadge_badge svgBadge_status
    svgBadge_parse
  by simp

text \<open>
  C2, as the code has it. The badge the classifier looks at is the first element, in
  document order, that matches the badge selector. When the classifier can read the
  node (its text, its class and its markup are strings, and so it has a verdict from
  the whole node) and the text and the class of that first badge are strings, and the
  text contains \<open>fail\<close> or the class contains \<open>fail\<close> or \<open>danger\<close> (in lower case),
  the status is fail, whatever the verdict from the whole node.
\<close>

theorem first_badge_fail_overrides:
  "wholeNodeStatus P node = Some verdict \<Longrightarrow>
   \<not> shadowed P (nodeOf node) ''querySelector'' \<Longrightarrow>
   querySelectorAll doc node statusSelector = el # others \<Longrightarrow>
   textContentOf P el = Some t \<Longrightarrow> classNameOf P el = Some c \<Longrightarrow>
   js_includes (toLowerCase P t) (js ''fail'') \<or> js_includes (toLowerCase P c) (js ''fail'') \<or>
   js_includes (toLowerCase P c) (js ''danger'') \<Longrightarrow>
   extractStatus P doc node = Some Fail"
  by (auto simp: extractStatus_def badgeStatus_def querySelectorOf_def querySelector_first
        Let_def)

lemma dangerBadge_query:
  "querySelectorAll (page dangerBadge) (bodyChild dangerBadge 0) statusSelector =
     [grandChild dangerBadge 0 0]"
  by (simp add: string_defs dom_defs dangerBadge_def statusSelector_def)

lemma dangerBadge_whole:
  "wholeNodeStatus (browser (page dangerBadge)) (bodyChild dangerBadge 0) = Some Pass"
  by (simp add: string_defs dom_defs read_defs dangerBadge_def wholeNodeStatus_def)

lemma dangerBadge_badge:
  "textContentOf (browser (page dangerBadge)) (grandChild dangerBadge 0 0) = Some (js ''1'') \<and>
   classNameOf (browser (page dangerBadge)) (grandChild dangerBadge 0 0) =
     Some (js ''badge badge-danger'') \<and>
   js_includes (toLowerCase (browser (page dangerBadge)) (js ''badge badge-danger''))
     (js ''danger'') \<and>
   \<not> shadowed (browser (page dangerBadge)) (nodeOf (bodyChild dangerBadge 0)) ''querySelector''"
  by (simp add: string_defs dom_defs read_defs dangerBadge_def)

text \<open>A node that reads as passed and whose only badge has the class \<open>badge-danger\<close>
  is failed.\<close>

theorem first_badge_fail_overrides_witness:
  "wholeNodeStatus (browser (page dangerBadge)) (bodyChild dangerBadge 0) = Some Pass \<and>
   querySelectorAll (page dangerBadge) (bodyChild dangerBadge 0) statusSelector =
     [grandChild dangerBadge 0 0] \<and>
   classNameOf (browser (page dangerBadge)) (grandChild dangerBadge 0 0) =
     Some (js ''badge badge-danger'') \<and>
   extractStatus (browser (page dangerBadge)) (page dangerBadge) (bodyChild dangerBadge 0) =
     Some Fail"
  using first_badge_fail_overrides [of "browser (page dangerBadge)" "bodyChild dangerBadge 0"
      Pass "page dangerBadge" "grandChild dangerBadge 0 0" "[]" "js ''1''"
      "js ''badge badge-danger''"]
    dangerBadge_query dangerBadge_whole dangerBadge_badge
  by simp

lemma twoBadges_query:
  "querySelectorAll (page twoBadges) (bodyChild twoBadges 0) statusSelector =
     [grandChild twoBadges 0 0, grandChild twoBadges 0 1]"
  by (simp add: string_defs dom_defs twoBadges_def statusSelector_def)

lemma twoBadges_whole:
  "wholeNodeStatus (browser (page twoBadges)) (bodyChild twoBadges 0) = Some Pass"
  by (simp add: string_defs dom_defs read_defs twoBadges_def wholeNodeStatus_def)

lemma twoBadges_second:
  "textContentOf (browser (page twoBadges)) (grandChild twoBadges 0 1) = Some (js ''Fail'') \<and>
   classNameOf (browser (page twoBadges)) (grandChild twoBadges 0 1) =
     Some (js ''badge badge-danger'') \<and>
   js_includes (toLowerCase (browser (page twoBadges)) (js ''Fail'')) (js ''fail'') \<and>
   js_includes (toLowerCase (browser (page twoBadges)) (js ''badge badge-danger''))
     (js ''danger'')"
  by (simp add: string_defs dom_defs read_defs twoBadges_def)

lemma twoBadges_status:
  "extractStatus (browser (page twoBadges)) (page twoBadges) (bodyChild twoBadges 0) = Some Pass"
  by (simp add: string_defs dom_defs read_defs twoBadges_def status_defs)

text \<open>
  C2 as stated fails: the node reads as passed and has a badge sub-element whose text
  contains \<open>fail\<close> and whose class contains \<open>danger\<close>, but that badge is the second
  match of the selector, and the classifier returns pass.
\<close>

theorem later_badge_fail_ignored:
  "wholeNodeStatus (browser (page twoBadges)) (bodyChild twoBadges 0) = Some Pass \<and>
   querySelectorAll (page twoBadges) (bodyChild twoBadges 0) statusSelector =
     [grandChild twoBadges 0 0, grandChild twoBadges 0 1] \<and>
   textContentOf (browser (page twoBadges)) (grandChild twoBadges 0 1) = Some (js ''Fail'') \<and>
   classNameOf (browser (page twoBadges)) (grandChild twoBadges 0 1) =
     Some (js ''badge badge-danger'') \<and>
   js_includes (toLowerCase (browser (page twoBadges)) (js ''Fail'')) (js ''fail'') \<and>
   js_includes (toLowerCase (browser (page twoBadges)) (js ''badge badge-danger''))
     (js ''danger'') \<and>
   extractStatus (browser (page twoBadges)) (page twoBadges) (bodyChild twoBadges 0) = Some Pass"
  using twoBadges_query twoBadges_whole twoBadges_second twoBadges_status
  by simp

text \<open>Where the first badge is an element of SVG, of whatever class, the classifier
  throws.\<close>

lemma svgDangerBadge_status:
  "querySelectorAll (page svgDangerBadge) (bodyChild svgDangerBadge 0) statusSelector =
     [grandChild svgDangerBadge 0 0] \<and>
   extractStatus (browser (page svgDangerBadge)) (page svgDangerBadge)
     (bodyChild svgDangerBadge 0) = None"
  by (simp add: string_defs dom_defs read_defs svgDangerBadge_def status_defs)

text \<open>The markup of a node includes the contents of a template in it: a node with the
  word fail in a template only is failed.\<close>

lemma templateNode_status:
  "innerHTML (nodeOf (bodyChild templateNode 0)) =
     js ''Login works<template><b>fail</b></template>'' \<and>
   textContent (nodeOf (bodyChild templateNode 0)) = js ''Login works'' \<and>
   extractStatus (browser (page templateNode)) (page templateNode)
     (bodyChild templateNode 0) = Some Fail"
  by (simp add: string_defs dom_defs read_defs templateNode_def status_defs)

subsection \<open>The structural pass\<close>

lemma structuralLoop_map:
  assumes "\<And>count inode pushed. testCaseOf P clock doc count inode = Some pushed \<Longrightarrow>
    map f pushed = (if keep inode then [g inode] else [])"
  shows "structuralLoop P clock doc acc xs = Some records \<Longrightarrow>
    map f records = map f acc @ map g (filter keep xs)"
proof (induction xs arbitrary: acc records)
  case Nil
  then show ?case by simp
next
  case (Cons x xs)
  from Cons.prems obtain pushed where
    p: "testCaseOf P clock doc (length acc) x = Some pushed" and
    r: "structuralLoop P clock doc (acc @ pushed) xs = Some records"
    by (auto simp: bind_eq_Some_conv)
  show ?case
    using Cons.IH [OF r] assms [OF p] by simp
qed

lemma testCaseOf_pushed:
  "testCaseOf P clock doc count inode = Some pushed \<Longrightarrow>
   map id_tc pushed =
     (case extractName P doc (snd inode) (fst inode) of
        None \<Rightarrow> []
      | Some nm \<Rightarrow> if 2 < length nm then [js ''test-'' @ numToString (fst inode + 1)] else []) \<and>
   map (\<lambda>t. Some (name t)) pushed =
     (case extractName P doc (snd inode) (fst inode) of
        None \<Rightarrow> []
      | Some nm \<Rightarrow> if 2 < length nm then [Some nm] else []) \<and>
   map (\<lambda>t. Some (status t)) pushed =
     (case extractName P doc (snd inode) (fst inode) of
        None \<Rightarrow> []
      | Some nm \<Rightarrow> if 2 < length nm then [extractStatus P doc (snd inode)] else [])"
  by (auto simp: testCaseOf_def bind_eq_Some_conv)

lemma structuralPass_ids:
  "structuralPass P clock doc = Some records \<Longrightarrow>
   map id_tc records =
     map (\<lambda>inode. js ''test-'' @ numToString (fst inode + 1)) (keptNodes P doc)"
proof -
  assume "structuralPass P clock doc = Some records"
  then have loop:
    "structuralLoop P clock doc [] (enumerate 0 (findTestNodes doc)) = Some records"
    by (simp add: structuralPass_def)
  have step: "map id_tc pushed =
      (if (case extractName P doc (snd inode) (fst inode) of
             None \<Rightarrow> False | Some nm \<Rightarrow> 2 < length nm)
       then [js ''test-'' @ numToString (fst inode + 1)] else [])"
    if "testCaseOf P clock doc count inode = Some pushed" for count inode pushed
    using testCaseOf_pushed [OF that] by (auto split: option.splits)
  from structuralLoop_map [OF step loop] show ?thesis
    by (simp add: keptNodes_def)
qed

lemma structuralPass_names:
  "structuralPass P clock doc = Some records \<Longrightarrow>
   map (\<lambda>t. Some (name t)) records =
     map (\<lambda>inode. extractName P doc (snd inode) (fst inode)) (keptNodes P doc)"
proof -
  assume "structuralPass P clock doc = Some records"
  then have loop:
    "structuralLoop P clock doc [] (enumerate 0 (findTestNodes doc)) = Some records"
    by (simp add: structuralPass_def)
  have step: "map (\<lambda>t. Some (name t)) pushed =
      (if (case extractName P doc (snd inode) (fst inode) of
             None \<Rightarrow> False | Some nm \<Rightarrow> 2 < length nm)
       then [extractName P doc (snd inode) (fst inode)] else [])"
    if "testCaseOf P clock doc count inode = Some pushed" for count inode pushed
    using testCaseOf_pushed [OF that] by (auto split: option.splits)
  from structuralLoop_map [OF step loop] show ?thesis
    by (simp add: keptNodes_def)
qed

lemma structuralPass_statuses:
  "structuralPass P clock doc = Some records \<Longrightarrow>
   map (\<lambda>t. Some (status t)) records =
     map (\<lambda>inode. extractStatus P doc (snd inode)) (keptNodes P doc)"
proof -
  assume "structuralPass P clock doc = Some records"
  then have loop:
    "structuralLoop P clock doc [] (enumerate 0 (findTestNodes doc)) = Some records"
    by (simp add: structuralPass_def)
  have step: "map (\<lambda>t. Some (status t)) pushed =
      (if (case extractName P doc (snd inode) (fst inode) of
             None \<Rightarrow> False | Some nm \<Rightarrow> 2 < length nm)
       then [extractStatus P doc (snd inode)] else [])"
    if "testCaseOf P clock doc count inode = Some pushed" for count inode pushed
    using testCaseOf_pushed [OF that] by (auto split: option.splits)
  from structuralLoop_map [OF step loop] show ?thesis
    by (simp add: keptNodes_def)
qed

lemma structuralPass_length:
  "structuralPass P clock doc = Some records \<Longrightarrow> length records = length (keptNodes P doc)"
  using structuralPass_ids [of P clock doc records] by (metis length_map)

lemma keptNodes_length: "length (keptNodes P doc) \<le> length (findTestNodes doc)"
proof -
  have "length (keptNodes P doc) \<le> length (enumerate 0 (findTestNodes doc))"
    unfolding keptNodes_def by (rule length_filter_le)
  then show ?thesis by simp
qed

lemma structuralPass_empty: "findTestNodes doc = [] \<Longrightarrow> structuralPass P clock doc = Some []"
  by (simp add: structuralPass_def)

text \<open>
  C5, as the code has it. When the structural pass returns, it has pushed one record for
  every matched node whose name has more than two code units, and none for the others:
  its records are, in document order, those of the kept nodes, each with the id
  \<open>test-\<close> and the index of its node among the matched nodes plus one, the name and the
  status of its node. So the pass returns as many records as there are kept nodes, at
  most the number of matched nodes.
\<close>

theorem one_record_per_named_node:
  "structuralPass P clock doc = Some records \<Longrightarrow>
   map id_tc records =
     map (\<lambda>inode. js ''test-'' @ numToString (fst inode + 1)) (keptNodes P doc) \<and>
   map (\<lambda>t. Some (name t)) records =
     map (\<lambda>inode. extractName P doc (snd inode) (fst inode)) (keptNodes P doc) \<and>
   map (\<lambda>t. Some (status t)) records =
     map (\<lambda>inode. extractStatus P doc (snd inode)) (keptNodes P doc) \<and>
   length records = length (keptNodes P doc) \<and>
   length (keptNodes P doc) \<le> length (findTestNodes doc)"
  using structuralPass_ids structuralPass_names structuralPass_statuses structuralPass_length
    keptNodes_length
  by blast

lemma shortName_nodes:
  "findTestNodes (page shortName) = [bodyChild shortName 0, bodyChild shortName 1]"
  by (simp add: string_defs dom_defs shortName_def findTestNodes_def selectors_def)

lemma shortName_names:
  "extractName (browser (page shortName)) (page shortName) (bodyChild shortName 0) 0 =
     Some (js ''ab'') \<and>
   extractName (browser (page shortName)) (page shortName) (bodyChild shortName 1) 1 =
     Some (js ''abc'')"
  by (simp add: string_defs dom_defs read_defs shortName_def extractName_def nameSelectors_def)

lemma shortName_kept:
  "keptNodes (browser (page shortName)) (page shortName) = [(1, bodyChild shortName 1)]"
  using shortName_names
  by (simp add: keptNodes_def shortName_nodes enumerate_eq_zip js_def)

lemma shortName_first:
  "extractStatus (browser (page shortName)) (page shortName) (bodyChild shortName 0) =
     Some Pass \<and>
   extractErrors (browser (page shortName)) (page shortName) (bodyChild shortName 0) =
     Some ([], [], []) \<and>
   extractSteps (browser (page shortName)) (page shortName) (bodyChild shortName 0) = Some [] \<and>
   extractScreenshots (browser (page shortName)) (page shortName) (bodyChild shortName 0) 0 =
     Some [] \<and>
   linkLogs (browser (page shortName)) (page shortName) (bodyChild shortName 0) = Some [] \<and>
   extractClassName (browser (page shortName)) (page shortName) (bodyChild shortName 0) =
     Some (js ''Test Suite'') \<and>
   extractDuration (browser (page shortName)) (page shortName) (bodyChild shortName 0) =
     Some (Finite 0)"
  by (simp add: string_defs dom_defs read_defs shortName_def status_defs parser_defs
        enumerate_eq_zip)

lemma shortName_second:
  "extractStatus (browser (page shortName)) (page shortName) (bodyChild shortName 1) =
     Some Pass \<and>
   extractErrors (browser (page shortName)) (page shortName) (bodyChild shortName 1) =
     Some ([], [], []) \<and>
   extractSteps (browser (page shortName)) (page shortName) (bodyChild shortName 1) = Some [] \<and>
   extractScreenshots (browser (page shortName)) (page shortName) (bodyChild shortName 1) 0 =
     Some [] \<and>
   linkLogs (browser (page shortName)) (page shortName) (bodyChild shortName 1) = Some [] \<and>
   extractClassName (browser (page shortName)) (page shortName) (bodyChild shortName 1) =
     Some (js ''Test Suite'') \<and>
   extractDuration (browser (page shortName)) (page shortName) (bodyChild shortName 1) =
     Some (Finite 0)"
  by (simp add: string_defs dom_defs read_defs shortName_def status_defs parser_defs
        enumerate_eq_zip)

text \<open>The structural pass returns on the example.\<close>

lemma shortName_pass:
  "structuralPass (browser (page shortName)) clock (page shortName) \<noteq> None"
  using shortName_names shortName_first shortName_second
  by (simp add: structuralPass_def shortName_nodes enumerate_eq_zip testCaseOf_def js_def)

text \<open>Of the two nodes of the example only the second gives a record, with the id
  \<open>test-2\<close>.\<close>

theorem one_record_per_named_node_witness:
  "length (findTestNodes (page shortName)) = 2 \<and>
   map_option (map id_tc)
     (structuralPass (browser (page shortName)) fixedClock (page shortName)) =
     Some [js ''test-2''] \<and>
   map_option (map name)
     (structuralPass (browser (page shortName)) fixedClock (page shortName)) =
     Some [js ''abc'']"
proof -
  from shortName_pass obtain records where
    r: "structuralPass (browser (page shortName)) fixedClock (page shortName) = Some records"
    by blast
  have "map id_tc records = [js ''test-2''] \<and> map (\<lambda>t. Some (name t)) records = [Some (js ''abc'')]"
    using one_record_per_named_node [OF r] shortName_names
    by (simp add: shortName_kept numToString_digit js_def)
  then have "map id_tc records = [js ''test-2''] \<and> map name records = [js ''abc'']"
    by (cases records) auto
  then show ?thesis
    by (simp add: r shortName_nodes)
qed

text \<open>
  C5 as stated fails: the cascade matches two nodes, and the structural pass, and with
  it the parser, returns one record.
\<close>

theorem short_name_node_dropped:
  "length (findTestNodes (page shortName)) = 2 \<and>
   map_option length (structuralPass (browser (page shortName)) fixedClock (page shortName)) =
     Some 1 \<and>
   map_option length
     (parseSparkExtentReport (browser (page shortName)) fixedClock
        (js ''<div class=\"test\">ab</div><div class=\"test\">abc</div>'')) = Some 1"
proof -
  from shortName_pass obtain records where
    r: "structuralPass (browser (page shortName)) fixedClock (page shortName) = Some records"
    by blast
  have l: "length records = 1"
    using structuralPass_length [OF r] by (simp add: shortName_kept)
  then have ne: "records \<noteq> []"
    by auto
  have p: "parseFromString (browser (page shortName)) h = page shortName" for h
    by (simp add: browser_def)
  from l ne show ?thesis
    by (simp add: shortName_nodes parseSparkExtentReport_def p r)
qed

text \<open>Where a matched node is an element of SVG, the parser throws at the class of the
  node; where it has a badge of SVG, at the class of the badge, also when its name is
  too short for a record.\<close>

lemma svgNode_throws:
  "findTestNodes (page svgNode) = [bodyChild svgNode 0] \<and>
   structuralPass (browser (page svgNode)) clock (page svgNode) = None"
proof -
  have n: "findTestNodes (page svgNode) = [bodyChild svgNode 0]"
    by (simp add: string_defs dom_defs svgNode_def findTestNodes_def selectors_def
          statusIndicators_def)
  have nm: "extractName (browser (page svgNode)) (page svgNode) (bodyChild svgNode 0) 0 =
      Some (js ''Login works'')"
    by (simp add: string_defs dom_defs read_defs svgNode_def extractName_def nameSelectors_def)
  have st: "extractStatus (browser (page svgNode)) (page svgNode) (bodyChild svgNode 0) = None"
    by (simp add: string_defs dom_defs read_defs svgNode_def status_defs)
  show ?thesis
    using n nm st by (simp add: structuralPass_def enumerate_eq_zip testCaseOf_def)
qed

lemma svgInShortName_throws:
  "findTestNodes (page svgInShortName) = [bodyChild svgInShortName 0] \<and>
   extractName (browser (page svgInShortName)) (page svgInShortName)
     (bodyChild svgInShortName 0) 0 = Some (js ''ok'') \<and>
   structuralPass (browser (page svgInShortName)) clock (page svgInShortName) = None"
proof -
  have n: "findTestNodes (page svgInShortName) = [bodyChild svgInShortName 0]"
    by (simp add: string_defs dom_defs svgInShortName_def findTestNodes_def selectors_def
          statusIndicators_def)
  have nm: "extractName (browser (page svgInShortName)) (page svgInShortName)
      (bodyChild svgInShortName 0) 0 = Some (js ''ok'')"
    by (simp add: string_defs dom_defs read_defs svgInShortName_def extractName_def
          nameSelectors_def)
  have st: "extractStatus (browser (page svgInShortName)) (page svgInShortName)
      (bodyChild svgInShortName 0) = None"
    by (simp add: string_defs dom_defs read_defs svgInShortName_def status_defs)
  show ?thesis
    using n nm st by (simp add: structuralPass_def enumerate_eq_zip testCaseOf_def)
qed

subsection \<open>The clock\<close>

lemma testCaseOf_clock:
  "map_option (map withoutTimestamp) (testCaseOf P clock1 doc count inode) =
   map_option (map withoutTimestamp) (testCaseOf P clock2 doc count inode)"
  by (simp add: testCaseOf_def withoutTimestamp_def split: bind_split)

lemma structuralLoop_clock:
  "map withoutTimestamp acc1 = map withoutTimestamp acc2 \<Longrightarrow>
   map_option (map withoutTimestamp) (structuralLoop P clock1 doc acc1 xs) =
   map_option (map withoutTimestamp) (structuralLoop P clock2 doc acc2 xs)"
proof (induction xs arbitrary: acc1 acc2)
  case Nil
  then show ?case by simp
next
  case (Cons x xs)
  have len: "length acc1 = length acc2"
    using Cons.prems by (rule map_eq_imp_length_eq)
  have step: "map_option (map withoutTimestamp) (testCaseOf P clock1 doc (length acc1) x) =
              map_option (map withoutTimestamp) (testCaseOf P clock2 doc (length acc2) x)"
    using testCaseOf_clock [of P clock1 doc "length acc2" x clock2] len by simp
  show ?case
  proof (cases "testCaseOf P clock1 doc (length acc1) x")
    case None
    with step have "testCaseOf P clock2 doc (length acc2) x = None"
      by simp
    with None show ?thesis
      by simp
  next
    case (Some p1)
    with step obtain p2 where
      p2: "testCaseOf P clock2 doc (length acc2) x = Some p2" and
      eq: "map withoutTimestamp p1 = map withoutTimestamp p2"
      by (cases "testCaseOf P clock2 doc (length acc2) x") auto
    have "map withoutTimestamp (acc1 @ p1) = map withoutTimestamp (acc2 @ p2)"
      using Cons.prems eq by simp
    from Cons.IH [OF this] Some p2 show ?thesis
      by simp
  qed
qed

lemma testCaseOf_v2_clock:
  "map_option withoutTimestamp (testCaseOf_v2 P clock1 doc count inode) =
   map_option withoutTimestamp (testCaseOf_v2 P clock2 doc count inode)"
  by (simp add: testCaseOf_v2_def withoutTimestamp_def Let_def split: bind_split)

lemma structuralLoop_v2_clock:
  "map withoutTimestamp acc1 = map withoutTimestamp acc2 \<Longrightarrow>
   map_option (map withoutTimestamp) (structuralLoop_v2 P clock1 doc acc1 xs) =
   map_option (map withoutTimestamp) (structuralLoop_v2 P clock2 doc acc2 xs)"
proof (induction xs arbitrary: acc1 acc2)
  case Nil
  then show ?case by simp
next
  case (Cons x xs)
  have len: "length acc1 = length acc2"
    using Cons.prems by (rule map_eq_imp_length_eq)
  have step: "map_option withoutTimestamp (testCaseOf_v2 P clock1 doc (length acc1) x) =
              map_option withoutTimestamp (testCaseOf_v2 P clock2 doc (length acc2) x)"
    using testCaseOf_v2_clock [of P clock1 doc "length acc2" x clock2] len by simp
  show ?case
  proof (cases "testCaseOf_v2 P clock1 doc (length acc1) x")
    case None
    with step have "testCaseOf_v2 P clock2 doc (length acc2) x = None"
      by simp
    with None show ?thesis
      by simp
  next
    case (Some p1)
    with step obtain p2 where
      p2: "testCaseOf_v2 P clock2 doc (length acc2) x = Some p2" and
      eq: "withoutTimestamp p1 = withoutTimestamp p2"
      by (cases "testCaseOf_v2 P clock2 doc (length acc2) x") auto
    have "map withoutTimestamp (acc1 @ [p1]) = map withoutTimestamp (acc2 @ [p2])"
      using Cons.prems eq by simp
    from Cons.IH [OF this] Some p2 show ?thesis
      by simp
  qed
qed

lemma structuralPass_clock:
  "map_option (map withoutTimestamp) (structuralPass P clock1 doc) =
   map_option (map withoutTimestamp) (structuralPass P clock2 doc)"
  unfolding structuralPass_def by (rule structuralLoop_clock) simp

lemma structuralPass_v2_clock:
  "map_option (map withoutTimestamp) (structuralPass_v2 P clock1 doc) =
   map_option (map withoutTimestamp) (structuralPass_v2 P clock2 doc)"
  unfolding structuralPass_v2_def by (rule structuralLoop_v2_clock) simp

text \<open>What the parser adds to the records of a structural pass that has returned.\<close>

lemma withFallback_clock:
  "map_option (map withoutTimestamp) pass1 = map_option (map withoutTimestamp) pass2 \<Longrightarrow>
   map_option (map withoutTimestamp)
     (do { testCases \<leftarrow> pass1;
           Some (if length testCases = 0 then testCases @ extra else testCases) }) =
   map_option (map withoutTimestamp)
     (do { testCases \<leftarrow> pass2;
           Some (if length testCases = 0 then testCases @ extra else testCases) })"
proof (cases pass1)
  case None
  assume "map_option (map withoutTimestamp) pass1 = map_option (map withoutTimestamp) pass2"
  with None have "pass2 = None"
    by simp
  with None show ?thesis
    by simp
next
  case (Some r1)
  assume "map_option (map withoutTimestamp) pass1 = map_option (map withoutTimestamp) pass2"
  with Some obtain r2 where r2: "pass2 = Some r2"
    and eq: "map withoutTimestamp r1 = map withoutTimestamp r2"
    by (cases pass2) auto
  from eq have "length r1 = length r2"
    by (rule map_eq_imp_length_eq)
  then have "(r1 = []) = (r2 = [])"
    by auto
  with eq Some r2 show ?thesis
    by auto
qed

text \<open>
  C6. On the same platform and the same input, two runs of the parser with any two
  clocks either both end in a TypeError or return sequences of the same length whose
  records are equal once the timestamp is taken out: they agree on id, name, class
  name, status, duration, error message, stack trace, logs, steps and screenshots. The
  same holds for the second parser. The ids of a structural pass that returns are
  \<open>test-\<close> and the position of the node among the matched nodes, whatever the
  platform and the clock.
\<close>

theorem deterministic_up_to_timestamp:
  "map_option (map withoutTimestamp) (parseSparkExtentReport P clock1 html) =
   map_option (map withoutTimestamp) (parseSparkExtentReport P clock2 html) \<and>
   map_option length (parseSparkExtentReport P clock1 html) =
   map_option length (parseSparkExtentReport P clock2 html) \<and>
   map_option (map withoutTimestamp) (parseSparkExtentReport_v2 P clock1 html) =
   map_option (map withoutTimestamp) (parseSparkExtentReport_v2 P clock2 html) \<and>
   map_option (map id_tc) (structuralPass P clock1 doc) =
   map_option (\<lambda>records. map (\<lambda>inode. js ''test-'' @ numToString (fst inode + 1))
                            (keptNodes P doc))
     (structuralPass P clock1 doc)"
proof -
  let ?doc = "parseFromString P html"
  have a: "map_option (map withoutTimestamp) (parseSparkExtentReport P clock1 html) =
           map_option (map withoutTimestamp) (parseSparkExtentReport P clock2 html)"
    unfolding parseSparkExtentReport_def Let_def
    by (rule withFallback_clock) (rule structuralPass_clock)
  have b: "map_option (map withoutTimestamp) (parseSparkExtentReport_v2 P clock1 html) =
           map_option (map withoutTimestamp) (parseSparkExtentReport_v2 P clock2 html)"
    unfolding parseSparkExtentReport_v2_def Let_def
    by (rule withFallback_clock) (rule structuralPass_v2_clock)
  have "map_option length (map_option (map withoutTimestamp) (parseSparkExtentReport P clock1 html)) =
        map_option length (map_option (map withoutTimestamp) (parseSparkExtentReport P clock2 html))"
    using a by simp
  then have c: "map_option length (parseSparkExtentReport P clock1 html) =
                map_option length (parseSparkExtentReport P clock2 html)"
    by (simp add: option.map_comp comp_def)
  have d: "map_option (map id_tc) (structuralPass P clock1 doc) =
     map_option (\<lambda>records. map (\<lambda>inode. js ''test-'' @ numToString (fst inode + 1))
                              (keptNodes P doc))
       (structuralPass P clock1 doc)"
    by (cases "structuralPass P clock1 doc") (simp_all add: structuralPass_ids)
  from a b c d show ?thesis by blast
qed

subsection \<open>Error details\<close>

lemma passWithError_nodes:
  "findTestNodes (page passWithError) = [bodyChild passWithError 0]"
  by (simp add: string_defs dom_defs passWithError_def findTestNodes_def selectors_def)

lemma passWithError_name:
  "extractName (browser (page passWithError)) (page passWithError) (bodyChild passWithError 0) 0 =
     Some (js ''Login worksExpected 5 at least'')"
  by (simp add: string_defs dom_defs read_defs passWithError_def extractName_def
        nameSelectors_def)

lemma passWithError_status:
  "extractStatus (browser (page passWithError)) (page passWithError)
     (bodyChild passWithError 0) = Some Pass"
  by (simp add: string_defs dom_defs read_defs passWithError_def status_defs)

lemma passWithError_errors:
  "extractErrors (browser (page passWithError)) (page passWithError) (bodyChild passWithError 0) =
     Some (js ''Expected 5 at least'', js ''Expected 5 at least'', [js ''Expected 5 at least''])"
  by (simp add: string_defs dom_defs read_defs passWithError_def extractErrors_def
        trimmedTexts_def errorSelectors_def errorStep_def)

lemma passWithError_rest:
  "linkLogs (browser (page passWithError)) (page passWithError) (bodyChild passWithError 0) =
     Some [] \<and>
   extractSteps (browser (page passWithError)) (page passWithError) (bodyChild passWithError 0) =
     Some [] \<and>
   extractScreenshots (browser (page passWithError)) (page passWithError)
     (bodyChild passWithError 0) 0 = Some [] \<and>
   extractClassName (browser (page passWithError)) (page passWithError)
     (bodyChild passWithError 0) = Some (js ''Test Suite'') \<and>
   extractDuration (browser (page passWithError)) (page passWithError)
     (bodyChild passWithError 0) = Some (Finite 0)"
  by (simp add: string_defs dom_defs read_defs passWithError_def parser_defs enumerate_eq_zip)

text \<open>What the first parser returns for the document
  \<^verbatim>\<open><div class="test">Login works<pre>Expected 5 at least</pre></div>\<close>.\<close>

lemma passWithError_parse:
  "parseSparkExtentReport (browser (page passWithError)) clock
     (js ''<div class=\"test\">Login works<pre>Expected 5 at least</pre></div>'') =
   Some [\<lparr>id_tc = js ''test-1'', name = js ''Login worksExpected 5 at least'',
          className = js ''Test Suite'', status = Pass, duration = Finite 0,
          errorMessage = Some (js ''Expected 5 at least''),
          stackTrace = Some (js ''Expected 5 at least''),
          logs = Some [js ''Expected 5 at least''],
          stepsToReproduce = None, screenshots = None, timestamp = Some (clock 0)\<rparr>]"
proof -
  have p: "parseFromString (browser (page passWithError)) h = page passWithError" for h
    by (simp add: browser_def)
  have n: "length (js ''Login worksExpected 5 at least'') = 30"
    by (simp add: js_def)
  have ne: "js ''Expected 5 at least'' \<noteq> []" "js ''Login worksExpected 5 at least'' \<noteq> []"
    by (simp_all add: js_def)
  show ?thesis
    using passWithError_nodes passWithError_name passWithError_status passWithError_errors
      passWithError_rest n ne
    by (simp add: parseSparkExtentReport_def p structuralPass_def enumerate_eq_zip testCaseOf_def
          orUndefined_def numToString_digit) (simp add: js_def)
qed

text \<open>
  C4 fails on the first parser. For the document above it returns one record, of status
  pass, that carries an error message and a stack trace: the loop over the log elements
  does not look at the status.
\<close>

theorem passed_record_with_error_detail:
  "map_option (map status)
     (parseSparkExtentReport (browser (page passWithError)) clock
        (js ''<div class=\"test\">Login works<pre>Expected 5 at least</pre></div>'')) =
     Some [Pass] \<and>
   map_option (map errorMessage)
     (parseSparkExtentReport (browser (page passWithError)) clock
        (js ''<div class=\"test\">Login works<pre>Expected 5 at least</pre></div>'')) =
     Some [Some (js ''Expected 5 at least'')] \<and>
   map_option (map stackTrace)
     (parseSparkExtentReport (browser (page passWithError)) clock
        (js ''<div class=\"test\">Login works<pre>Expected 5 at least</pre></div>'')) =
     Some [Some (js ''Expected 5 at least'')]"
  by (simp add: passWithError_parse)

text \<open>
  Two runs on the example with clocks that differ: the records agree but for the
  timestamp, and the timestamps are those of the two clocks.
\<close>

theorem deterministic_up_to_timestamp_witness:
  "map_option (map withoutTimestamp)
     (parseSparkExtentReport (browser (page passWithError)) (\<lambda>k. js ''2026-01-01T00:00:00.000Z'')
        (js ''<div class=\"test\">Login works<pre>Expected 5 at least</pre></div>'')) =
   map_option (map withoutTimestamp)
     (parseSparkExtentReport (browser (page passWithError)) (\<lambda>k. js ''2026-01-02T00:00:00.000Z'')
        (js ''<div class=\"test\">Login works<pre>Expected 5 at least</pre></div>'')) \<and>
   map_option (map timestamp)
     (parseSparkExtentReport (browser (page passWithError)) (\<lambda>k. js ''2026-01-01T00:00:00.000Z'')
        (js ''<div class=\"test\">Login works<pre>Expected 5 at least</pre></div>'')) =
     Some [Some (js ''2026-01-01T00:00:00.000Z'')] \<and>
   map_option (map timestamp)
     (parseSparkExtentReport (browser (page passWithError)) (\<lambda>k. js ''2026-01-02T00:00:00.000Z'')
        (js ''<div class=\"test\">Login works<pre>Expected 5 at least</pre></div>'')) =
     Some [Some (js ''2026-01-02T00:00:00.000Z'')]"
  using deterministic_up_to_timestamp [of "browser (page passWithError)"
      "\<lambda>k. js ''2026-01-01T00:00:00.000Z''"
      "js ''<div class=\"test\">Login works<pre>Expected 5 at least</pre></div>''"
      "\<lambda>k. js ''2026-01-02T00:00:00.000Z''"]
  by (simp add: passWithError_parse)

lemma logStep_v2_not_failed:
  "st \<noteq> Fail \<Longrightarrow> fst (logStep_v2 st acc text) = fst acc \<and>
   fst (snd (logStep_v2 st acc text)) = fst (snd acc)"
  by (cases acc) (simp add: logStep_v2_def)

lemma logLoop_v2_not_failed:
  "st \<noteq> Fail \<Longrightarrow> fst (foldl (logStep_v2 st) acc texts) = fst acc \<and>
   fst (snd (foldl (logStep_v2 st) acc texts)) = fst (snd acc)"
  by (induction texts arbitrary: acc) (simp_all add: logStep_v2_not_failed)

lemma testCaseOf_v2_guard:
  "testCaseOf_v2 P clock doc count inode = Some t \<Longrightarrow> status t \<noteq> Fail \<Longrightarrow>
   errorMessage t = None \<and> stackTrace t = None"
  by (auto simp: testCaseOf_v2_def bind_eq_Some_conv Let_def orUndefined_def
        logLoop_v2_not_failed)

lemma structuralLoop_v2_guard:
  "structuralLoop_v2 P clock doc acc xs = Some records \<Longrightarrow>
   \<forall>t \<in> set acc. status t \<noteq> Fail \<longrightarrow> errorMessage t = None \<and> stackTrace t = None \<Longrightarrow>
   \<forall>t \<in> set records. status t \<noteq> Fail \<longrightarrow> errorMessage t = None \<and> stackTrace t = None"
proof (induction xs arbitrary: acc)
  case Nil
  then show ?case by simp
next
  case (Cons x xs)
  from Cons.prems(1) obtain pushed where
    p: "testCaseOf_v2 P clock doc (length acc) x = Some pushed" and
    r: "structuralLoop_v2 P clock doc (acc @ [pushed]) xs = Some records"
    by (auto simp: bind_eq_Some_conv)
  show ?case
    by (rule Cons.IH [OF r]) (use Cons.prems(2) testCaseOf_v2_guard [OF p] in auto)
qed

text \<open>The second parser does what C4 says: its loop over the log nodes assigns the
  error message and the stack trace only under the status fail, and its fallback gives
  an error message to the failed records only.\<close>

lemma second_parser_error_detail_only_on_fail:
  "parseSparkExtentReport_v2 P clock html = Some records \<Longrightarrow> t \<in> set records \<Longrightarrow>
   status t \<noteq> Fail \<Longrightarrow> errorMessage t = None \<and> stackTrace t = None"
proof -
  assume r: "parseSparkExtentReport_v2 P clock html = Some records"
    and t: "t \<in> set records" and s: "status t \<noteq> Fail"
  from r obtain pass where
    pass: "structuralPass_v2 P clock (parseFromString P html) = Some pass" and
    recs: "records = (if length pass = 0 then pass @ summaryFallback_v2 (parseFromString P html)
                      else pass)"
    by (auto simp: parseSparkExtentReport_v2_def Let_def bind_eq_Some_conv)
  have a: "\<forall>t \<in> set pass. status t \<noteq> Fail \<longrightarrow> errorMessage t = None \<and> stackTrace t = None"
    using pass unfolding structuralPass_v2_def by (rule structuralLoop_v2_guard) simp
  have b: "\<forall>t \<in> set (summaryFallback_v2 (parseFromString P html)).
     status t \<noteq> Fail \<longrightarrow> errorMessage t = None \<and> stackTrace t = None"
    by (auto simp: summaryFallback_v2_def Let_def summaryCase_v2_def)
  from t recs have "t \<in> set pass \<or> t \<in> set (summaryFallback_v2 (parseFromString P html))"
    by (auto split: if_splits)
  with a b s show ?thesis by blast
qed

subsection \<open>Regex fallback\<close>

lemma extractedCase_status:
  "status (extractedCase failCount skipCount names i) =
     (if i < failCount then Fail else if i < failCount + skipCount then Skip else Pass)"
  by (simp add: extractedCase_def)

lemma fallback_statuses:
  "f + s \<le> n \<Longrightarrow>
   map status (map (extractedCase f s names) [0 ..< n]) =
     replicate f Fail @ replicate s Skip @ replicate (n - f - s) Pass"
  by (auto simp: list_eq_iff_nth_eq nth_append extractedCase_status)

text \<open>The statuses of the records of the fallback, from the three counts and the number
  of names found.\<close>

lemma regexFallback_statuses:
  "map status (regexFallback doc html) =
     replicate (countOf failRe (bodyTextOr doc html)) Fail @
     replicate (countOf skipRe (bodyTextOr doc html)) Skip @
     replicate
       (max (max (countOf passRe (bodyTextOr doc html) + countOf failRe (bodyTextOr doc html) +
                  countOf skipRe (bodyTextOr doc html))
               (length (matchAll testNameRe 0 html))) 1 -
        countOf failRe (bodyTextOr doc html) - countOf skipRe (bodyTextOr doc html)) Pass"
  unfolding regexFallback_def Let_def
  by (rule fallback_statuses) simp

lemma parseInt_digit: "48 \<le> c \<Longrightarrow> c \<le> 57 \<Longrightarrow> parseInt [c] = c - 48"
  by (simp add: parseInt_def isDigit_def)

text \<open>Where the cascade matches no element, the parser returns the records of the
  fallback.\<close>

lemma parse_without_nodes:
  "findTestNodes (parseFromString P html) = [] \<Longrightarrow>
   parseSparkExtentReport P clock html = Some (regexFallback (parseFromString P html) html)"
  by (simp add: parseSparkExtentReport_def structuralPass_empty)

text \<open>
  C1, as the code has it. When the cascade matches no element, the input has no
  test-name token, and in the body text the first match of the fail pattern captures 3,
  the first match of the pass pattern 7 and the first match of the skip pattern 2, the
  parser returns exactly 12 records: 3 of status fail, then 2 of status skip, then 7 of
  status pass.
\<close>

theorem summary_counts_3_7_2:
  "findTestNodes (parseFromString P html) = [] \<Longrightarrow>
   matchGroup1 failRe (bodyTextOr (parseFromString P html) html) = Some (js ''3'') \<Longrightarrow>
   matchGroup1 passRe (bodyTextOr (parseFromString P html) html) = Some (js ''7'') \<Longrightarrow>
   matchGroup1 skipRe (bodyTextOr (parseFromString P html) html) = Some (js ''2'') \<Longrightarrow>
   matchAll testNameRe 0 html = [] \<Longrightarrow>
   map_option (map status) (parseSparkExtentReport P clock html) =
     Some (replicate 3 Fail @ replicate 2 Skip @ replicate 7 Pass) \<and>
   map_option length (parseSparkExtentReport P clock html) = Some 12"
proof -
  assume a: "findTestNodes (parseFromString P html) = []"
    and f: "matchGroup1 failRe (bodyTextOr (parseFromString P html) html) = Some (js ''3'')"
    and p: "matchGroup1 passRe (bodyTextOr (parseFromString P html) html) = Some (js ''7'')"
    and s: "matchGroup1 skipRe (bodyTextOr (parseFromString P html) html) = Some (js ''2'')"
    and n: "matchAll testNameRe 0 html = []"
  have c: "countOf failRe (bodyTextOr (parseFromString P html) html) = 3"
    "countOf passRe (bodyTextOr (parseFromString P html) html) = 7"
    "countOf skipRe (bodyTextOr (parseFromString P html) html) = 2"
    using f p s by (simp_all add: countOf_def js_def parseInt_digit)
  have st: "map status (regexFallback (parseFromString P html) html) =
     replicate 3 Fail @ replicate 2 Skip @ replicate 7 Pass"
    by (simp add: regexFallback_statuses c n)
  have "length (map status (regexFallback (parseFromString P html) html)) = 12"
    unfolding st by simp
  then have "length (regexFallback (parseFromString P html) html) = 12"
    by simp
  with st show ?thesis
    by (simp add: parse_without_nodes [OF a])
qed

lemma summaryOnly_nodes: "findTestNodes (page summaryOnly) = []"
  by (simp add: string_defs dom_defs summaryOnly_def findTestNodes_def selectors_def
        statusIndicators_def)

lemma summaryOnly_body:
  "bodyTextOr (page summaryOnly) h = js ''Failed: 3, Passed: 7, Skipped: 2''"
  by (simp add: string_defs dom_defs summaryOnly_def bodyTextOr_def)

lemma summaryOnly_counts:
  "matchGroup1 failRe (js ''Failed: 3, Passed: 7, Skipped: 2'') = Some (js ''3'') \<and>
   matchGroup1 passRe (js ''Failed: 3, Passed: 7, Skipped: 2'') = Some (js ''7'') \<and>
   matchGroup1 skipRe (js ''Failed: 3, Passed: 7, Skipped: 2'') = Some (js ''2'')"
  by (simp add: string_defs regex_defs passRe_def failRe_def skipRe_def countRe_def)

lemma summaryOnly_names:
  "matchAll testNameRe 0 (js ''Failed: 3, Passed: 7, Skipped: 2'') = []"
  by (simp add: string_defs regex_defs testNameRe_def testNamePrefixRe_def)

text \<open>The document whose body text is exactly \<open>Failed: 3, Passed: 7, Skipped: 2\<close>.\<close>

theorem summary_counts_3_7_2_witness:
  "findTestNodes (page summaryOnly) = [] \<and>
   bodyTextOr (page summaryOnly) (js ''Failed: 3, Passed: 7, Skipped: 2'') =
     js ''Failed: 3, Passed: 7, Skipped: 2'' \<and>
   map_option (map status)
     (parseSparkExtentReport (browser (page summaryOnly)) fixedClock
        (js ''Failed: 3, Passed: 7, Skipped: 2'')) =
     Some [Fail, Fail, Fail, Skip, Skip, Pass, Pass, Pass, Pass, Pass, Pass, Pass]"
proof -
  have p: "parseFromString (browser (page summaryOnly)) h = page summaryOnly" for h
    by (simp add: browser_def)
  show ?thesis
    using summary_counts_3_7_2 [of "browser (page summaryOnly)"
        "js ''Failed: 3, Passed: 7, Skipped: 2''" fixedClock]
      summaryOnly_nodes summaryOnly_counts summaryOnly_names
    by (simp add: p summaryOnly_body eval_nat_numeral)
qed

lemma earlierCount_nodes: "findTestNodes (page earlierCount) = []"
  by (simp add: string_defs dom_defs earlierCount_def findTestNodes_def selectors_def
        statusIndicators_def)

lemma earlierCount_body:
  "bodyTextOr (page earlierCount) h = js ''Passed 9 checks. Failed: 3, Passed: 7, Skipped: 2''"
  by (simp add: string_defs dom_defs earlierCount_def bodyTextOr_def)

lemma earlierCount_contains:
  "js_includes (js ''Passed 9 checks. Failed: 3, Passed: 7, Skipped: 2'')
     (js ''Failed: 3, Passed: 7, Skipped: 2'')"
  by (simp add: js_def)

lemma earlierCount_counts:
  "countOf failRe (js ''Passed 9 checks. Failed: 3, Passed: 7, Skipped: 2'') = 3 \<and>
   countOf passRe (js ''Passed 9 checks. Failed: 3, Passed: 7, Skipped: 2'') = 9 \<and>
   countOf skipRe (js ''Passed 9 checks. Failed: 3, Passed: 7, Skipped: 2'') = 2"
  by (simp add: string_defs regex_defs count_defs)

lemma earlierCount_names:
  "matchAll testNameRe 0 (js ''Passed 9 checks. Failed: 3, Passed: 7, Skipped: 2'') = []"
  by (simp add: string_defs regex_defs testNameRe_def testNamePrefixRe_def)

text \<open>
  C1 as stated fails: the cascade matches nothing, the body text contains
  \<open>Failed: 3, Passed: 7, Skipped: 2\<close> and the input has no test-name token, but the
  first match of the pass pattern is the earlier \<open>Passed 9\<close>, and the parser returns 14
  records, 9 of them of status pass.
\<close>

theorem earlier_count_wins:
  "findTestNodes (page earlierCount) = [] \<and>
   js_includes
     (bodyTextOr (page earlierCount) (js ''Passed 9 checks. Failed: 3, Passed: 7, Skipped: 2''))
     (js ''Failed: 3, Passed: 7, Skipped: 2'') \<and>
   matchAll testNameRe 0 (js ''Passed 9 checks. Failed: 3, Passed: 7, Skipped: 2'') = [] \<and>
   map_option (map status)
     (parseSparkExtentReport (browser (page earlierCount)) fixedClock
        (js ''Passed 9 checks. Failed: 3, Passed: 7, Skipped: 2'')) =
     Some [Fail, Fail, Fail, Skip, Skip, Pass, Pass, Pass, Pass, Pass, Pass, Pass, Pass, Pass]"
proof -
  have p: "parseFromString (browser (page earlierCount)) h = page earlierCount" for h
    by (simp add: browser_def)
  have e: "parseSparkExtentReport (browser (page earlierCount)) fixedClock h =
           Some (regexFallback (page earlierCount) h)" for h
    using parse_without_nodes [of "browser (page earlierCount)" h fixedClock] earlierCount_nodes
    by (simp add: p)
  show ?thesis
    using earlierCount_contains earlierCount_counts
    by (simp add: e regexFallback_statuses earlierCount_nodes earlierCount_body
          earlierCount_names eval_nat_numeral)
qed

text \<open>The first parser never returns the empty sequence.\<close>

lemma parser_never_empty: "parseSparkExtentReport P clock html \<noteq> Some []"
proof -
  have "regexFallback (parseFromString P html) html \<noteq> []"
    unfolding regexFallback_def Let_def by simp
  then show ?thesis
    by (auto simp: parseSparkExtentReport_def Let_def bind_eq_Some_conv)
qed

text \<open>
  C3. When the structural pass returns and yields no record, none of the three count
  patterns matches the body text and the input has no test-name token, the parser
  returns exactly one record, the placeholder \<open>extracted-1\<close> named \<open>Test Case 1\<close>,
  of status pass.
\<close>

theorem placeholder_when_nothing_matches:
  "structuralPass P clock (parseFromString P html) = Some [] \<Longrightarrow>
   matchGroup1 passRe (bodyTextOr (parseFromString P html) html) = None \<Longrightarrow>
   matchGroup1 failRe (bodyTextOr (parseFromString P html) html) = None \<Longrightarrow>
   matchGroup1 skipRe (bodyTextOr (parseFromString P html) html) = None \<Longrightarrow>
   matchAll testNameRe 0 html = [] \<Longrightarrow>
   parseSparkExtentReport P clock html = Some [extractedCase 0 0 [] 0] \<and>
   status (extractedCase 0 0 [] 0) = Pass \<and>
   id_tc (extractedCase 0 0 [] 0) = js ''extracted-1'' \<and>
   name (extractedCase 0 0 [] 0) = js ''Test Case 1''"
  by (simp add: parseSparkExtentReport_def regexFallback_def countOf_def Let_def
        extractedCase_def extractedName_def numToString_digit js_def)

lemma noResults_nodes: "findTestNodes (page noResults) = []"
  by (simp add: string_defs dom_defs noResults_def findTestNodes_def selectors_def
        statusIndicators_def)

lemma noResults_body: "bodyTextOr (page noResults) h = js ''No results''"
  by (simp add: string_defs dom_defs noResults_def bodyTextOr_def)

lemma noResults_counts:
  "matchGroup1 passRe (js ''No results'') = None \<and>
   matchGroup1 failRe (js ''No results'') = None \<and>
   matchGroup1 skipRe (js ''No results'') = None"
  by (simp add: string_defs regex_defs passRe_def failRe_def skipRe_def countRe_def)

lemma noResults_names: "matchAll testNameRe 0 (js ''No results'') = []"
  by (simp add: string_defs regex_defs testNameRe_def testNamePrefixRe_def)

text \<open>The document whose body text is \<open>No results\<close>.\<close>

theorem placeholder_when_nothing_matches_witness:
  "structuralPass (browser (page noResults)) fixedClock (page noResults) = Some [] \<and>
   matchAll testNameRe 0 (js ''No results'') = [] \<and>
   map_option (map status)
     (parseSparkExtentReport (browser (page noResults)) fixedClock (js ''No results'')) =
     Some [Pass]"
proof -
  have p: "parseFromString (browser (page noResults)) h = page noResults" for h
    by (simp add: browser_def)
  have s: "structuralPass (browser (page noResults)) fixedClock (page noResults) = Some []"
    using noResults_nodes by (rule structuralPass_empty)
  show ?thesis
    using placeholder_when_nothing_matches [of "browser (page noResults)" fixedClock
        "js ''No results''"]
      s noResults_counts noResults_names
    by (simp add: p noResults_body)
qed

subsection \<open>The two parsers\<close>

lemma summaryFallback_v2_statuses:
  "map status (summaryFallback_v2 doc) =
     replicate (countOf (countRe_v2 ''pass'' ''ed'') (bodyTextOr doc [])) Pass @
     replicate (countOf (countRe_v2 ''fail'' ''ed'') (bodyTextOr doc [])) Fail @
     replicate (countOf (countRe_v2 ''skip'' ''ped'') (bodyTextOr doc [])) Skip"
  by (simp add: summaryFallback_v2_def Let_def summaryCase_v2_def comp_def map_replicate_const)

lemma withoutTimestamp_status:
  "map_option (map status) (map_option (map withoutTimestamp) r) = map_option (map status) r"
  by (cases r) (simp_all add: withoutTimestamp_def comp_def)

lemma failPassSummary_nodes:
  "findTestNodes (page failPassSummary) = [] \<and>
   docQuerySelectorAll (page failPassSummary) testNodeSelector_v2 = []"
  by (simp add: string_defs dom_defs failPassSummary_def findTestNodes_def selectors_def
        statusIndicators_def testNodeSelector_v2_def)

lemma failPassSummary_body: "bodyTextOr (page failPassSummary) h = js ''Failed: 1, Passed: 2''"
  by (simp add: string_defs dom_defs failPassSummary_def bodyTextOr_def)

lemma failPassSummary_counts:
  "countOf failRe (js ''Failed: 1, Passed: 2'') = 1 \<and>
   countOf passRe (js ''Failed: 1, Passed: 2'') = 2 \<and>
   countOf skipRe (js ''Failed: 1, Passed: 2'') = 0 \<and>
   matchAll testNameRe 0 (js ''Failed: 1, Passed: 2'') = []"
  by (simp add: string_defs regex_defs count_defs)

lemma failPassSummary_counts_v2:
  "countOf (countRe_v2 ''fail'' ''ed'') (js ''Failed: 1, Passed: 2'') = 1 \<and>
   countOf (countRe_v2 ''pass'' ''ed'') (js ''Failed: 1, Passed: 2'') = 2 \<and>
   countOf (countRe_v2 ''skip'' ''ped'') (js ''Failed: 1, Passed: 2'') = 0"
  by (simp add: string_defs regex_defs countRe_v2_def countOf_def parseInt_def)

text \<open>
  C8. The two parsers are not equal: on the input \<open>Failed: 1, Passed: 2\<close>, a document
  with this text alone in its body, both return, the first parser with the failed
  record first and the second parser with it last, so the two results differ also with
  the timestamps taken out.
\<close>

theorem parsers_differ:
  "parseFromString P (js ''Failed: 1, Passed: 2'') = page failPassSummary \<Longrightarrow>
   map_option (map status) (parseSparkExtentReport P clock (js ''Failed: 1, Passed: 2'')) =
     Some [Fail, Pass, Pass] \<and>
   map_option (map status) (parseSparkExtentReport_v2 P clock (js ''Failed: 1, Passed: 2'')) =
     Some [Pass, Pass, Fail] \<and>
   map_option (map withoutTimestamp)
     (parseSparkExtentReport P clock (js ''Failed: 1, Passed: 2'')) \<noteq>
   map_option (map withoutTimestamp)
     (parseSparkExtentReport_v2 P clock (js ''Failed: 1, Passed: 2''))"
proof -
  assume p: "parseFromString P (js ''Failed: 1, Passed: 2'') = page failPassSummary"
  have a: "map_option (map status) (parseSparkExtentReport P clock (js ''Failed: 1, Passed: 2'')) =
           Some [Fail, Pass, Pass]"
    using failPassSummary_nodes failPassSummary_counts
    by (simp add: parseSparkExtentReport_def p structuralPass_empty regexFallback_statuses
          failPassSummary_body eval_nat_numeral)
  have b: "map_option (map status)
             (parseSparkExtentReport_v2 P clock (js ''Failed: 1, Passed: 2'')) =
           Some [Pass, Pass, Fail]"
    using failPassSummary_nodes failPassSummary_counts_v2
    by (simp add: parseSparkExtentReport_v2_def p structuralPass_v2_def
          summaryFallback_v2_statuses failPassSummary_body eval_nat_numeral)
  have "map_option (map status) (parseSparkExtentReport P clock (js ''Failed: 1, Passed: 2'')) \<noteq>
        map_option (map status) (parseSparkExtentReport_v2 P clock (js ''Failed: 1, Passed: 2''))"
    unfolding a b by simp
  then have "map_option (map withoutTimestamp)
      (parseSparkExtentReport P clock (js ''Failed: 1, Passed: 2'')) \<noteq>
    map_option (map withoutTimestamp)
      (parseSparkExtentReport_v2 P clock (js ''Failed: 1, Passed: 2''))"
    using withoutTimestamp_status by metis
  with a b show ?thesis by blast
qed

text \<open>With the browser of the examples.\<close>

theorem parsers_differ_witness:
  "map_option (map status)
     (parseSparkExtentReport (browser (page failPassSummary)) fixedClock
        (js ''Failed: 1, Passed: 2'')) = Some [Fail, Pass, Pass] \<and>
   map_option (map status)
     (parseSparkExtentReport_v2 (browser (page failPassSummary)) fixedClock
        (js ''Failed: 1, Passed: 2'')) = Some [Pass, Pass, Fail]"
  using parsers_differ [of "browser (page failPassSummary)" fixedClock]
  by (simp add: browser_def)

subsection \<open>The analysis boundary\<close>

lemma propOf_fallbackFailure:
  "propOf (fallbackFailure t) ''testId'' = Some (JStr (id_tc t)) \<and>
   propOf (fallbackFailure t) ''rootCause'' =
     Some (JStr (orElse (errorMessage t) ''Unable to determine root cause automatically'')) \<and>
   propOf (fallbackFailure t) ''category'' = Some (JStr (js ''automation_script_defect'')) \<and>
   propOf (fallbackFailure t) ''confidence'' = Some (JStr (js ''low'')) \<and>
   propOf (fallbackFailure t) ''evidence'' =
     Some (JArr [JStr (orElse (errorMessage t) ''No error message available'')]) \<and>
   propOf (fallbackFailure t) ''suggestedFix'' =
     Some (JStr (js ''Review the test implementation and logs manually''))"
  by (simp add: fallbackFailure_def js_def)

lemma find_member: "t \<in> set ts \<Longrightarrow> \<exists>u. find (\<lambda>u. id_tc u = id_tc t) ts = Some u"
  by (induction ts) auto

lemma testCaseFor_fallbackFailure:
  "t \<in> set failedTests \<Longrightarrow>
   testCaseFor failedTests (fallbackFailure t) = Some (firstWithId failedTests t)"
proof -
  assume m: "t \<in> set failedTests"
  have e: "(\<lambda>u. propOf (fallbackFailure t) ''testId'' = Some (JStr (id_tc u))) =
           (\<lambda>u. id_tc u = id_tc t)"
    by (rule ext) (auto simp: propOf_fallbackFailure)
  from find_member [OF m] obtain u where "find (\<lambda>u. id_tc u = id_tc t) failedTests = Some u"
    by blast
  then show ?thesis
    by (simp add: testCaseFor_def e firstWithId_def)
qed

text \<open>The entry of the response for the fallback entry of a failed test case.\<close>

lemma mapFailure_fallbackFailure:
  "t \<in> set failedTests \<Longrightarrow>
   mapFailure failedTests (fallbackFailure t) =
     JObj [(js ''testCase'', testCaseJson (firstWithId failedTests t)),
           (js ''rootCause'',
            JStr (case errorMessage t of
                    None \<Rightarrow> js ''Unable to determine root cause automatically''
                  | Some m \<Rightarrow>
                      if m = [] then js ''Unable to determine root cause automatically'' else m)),
           (js ''category'', JStr (js ''automation_script_defect'')),
           (js ''confidence'', JStr (js ''low'')),
           (js ''evidence'',
            JArr [JStr (case errorMessage t of
                          None \<Rightarrow> js ''No error message available''
                        | Some m \<Rightarrow> if m = [] then js ''No error message available'' else m)]),
           (js ''suggestedFix'', JStr (js ''Review the test implementation and logs manually''))]"
  by (simp add: mapFailure_def testCaseFor_fallbackFailure propOf_fallbackFailure
        optionalField_def orJson_def orElse_def)

lemma propOf_fallbackAnalysis:
  "propOf (fallbackAnalysis failedTests) ''failures'' =
     Some (JArr (map fallbackFailure failedTests)) \<and>
   propOf (fallbackAnalysis failedTests) ''patterns'' = Some (JArr []) \<and>
   propOf (fallbackAnalysis failedTests) ''recommendations'' =
     Some (JArr [JObj [(js ''priority'', JStr (js ''high'')),
                       (js ''title'', JStr (js ''Manual Review Required'')),
                       (js ''description'',
                        JStr (js ''AI analysis was unable to parse the failures completely. Manual review is recommended.'')),
                       (js ''actionItems'',
                        JArr [JStr (js ''Review each failure manually''),
                              JStr (js ''Check test logs for more context'')])]])"
  by (simp add: fallbackAnalysis_def manualReview_def js_def)

lemma mappedFailures_fallback:
  "mappedFailures failedTests (fallbackAnalysis failedTests) =
     Some (map (\<lambda>t. mapFailure failedTests (fallbackFailure t)) failedTests)"
proof -
  have "JNull \<notin> set (map fallbackFailure failedTests)"
    by (auto simp: fallbackFailure_def)
  then show ?thesis
    by (simp add: mappedFailures_def propOf_fallbackAnalysis comp_def)
qed

text \<open>
  C9. On a request that is not an OPTIONS request and carries a list of test cases,
  with an API key configured and a reply of the gateway whose content is no string or
  makes \<^verbatim>\<open>JSON.parse\<close> throw, the handler answers with status 200 and this body: the
  summary; one failure entry for each test case of status fail, in their order, each
  with its test case, the error message of the test case (or a fixed text) as root
  cause and as evidence, the category \<open>automation_script_defect\<close>, the confidence
  \<open>low\<close> and a fixed suggested fix; no patterns; and one recommendation, of priority
  high, with a fixed title, description and action items. The failures, the patterns
  and the recommendations are a function of the test cases alone: they do not depend on
  the reply, the raw content or the runtime.
\<close>

theorem malformed_reply_falls_back:
  "method \<noteq> js ''OPTIONS'' \<Longrightarrow> apiKey = Some k \<Longrightarrow> k \<noteq> [] \<Longrightarrow>
   (case content of None \<Rightarrow> True | Some c \<Rightarrow> jsonParse R (jsonText c) = None) \<Longrightarrow>
   handler R apiKey (GatewayReply content) (Request method (Payload (Some testCases) rawContent)) =
     Response 200
       (JObj [(js ''summary'', summaryOf R testCases),
              (js ''failures'',
               JArr (map (\<lambda>t.
                       JObj [(js ''testCase'',
                              testCaseJson
                                (firstWithId (filter (\<lambda>u. status u = Fail) testCases) t)),
                             (js ''rootCause'',
                              JStr (case errorMessage t of
                                      None \<Rightarrow> js ''Unable to determine root cause automatically''
                                    | Some m \<Rightarrow>
                                        if m = []
                                        then js ''Unable to determine root cause automatically''
                                        else m)),
                             (js ''category'', JStr (js ''automation_script_defect'')),
                             (js ''confidence'', JStr (js ''low'')),
                             (js ''evidence'',
                              JArr [JStr (case errorMessage t of
                                            None \<Rightarrow> js ''No error message available''
                                          | Some m \<Rightarrow>
                                              if m = [] then js ''No error message available''
                                              else m)]),
                             (js ''suggestedFix'',
                              JStr (js ''Review the test implementation and logs manually''))])
                     (filter (\<lambda>t. status t = Fail) testCases))),
              (js ''patterns'', JArr []),
              (js ''recommendations'',
               JArr [JObj [(js ''priority'', JStr (js ''high'')),
                           (js ''title'', JStr (js ''Manual Review Required'')),
                           (js ''description'',
                            JStr (js ''AI analysis was unable to parse the failures completely. Manual review is recommended.'')),
                           (js ''actionItems'',
                            JArr [JStr (js ''Review each failure manually''),
                                  JStr (js ''Check test logs for more context'')])]])])"
proof -
  assume m: "method \<noteq> js ''OPTIONS''" and a: "apiKey = Some k" and k: "k \<noteq> []"
    and c: "case content of None \<Rightarrow> True | Some c \<Rightarrow> jsonParse R (jsonText c) = None"
  let ?failed = "filter (\<lambda>t. status t = Fail) testCases"
  from c have r: "parseReply R content = None"
    by (simp add: parseReply_def split: option.splits)
  have e: "map (\<lambda>t. mapFailure ?failed (fallbackFailure t)) ?failed =
      map (\<lambda>t.
             JObj [(js ''testCase'', testCaseJson (firstWithId ?failed t)),
                   (js ''rootCause'',
                    JStr (case errorMessage t of
                            None \<Rightarrow> js ''Unable to determine root cause automatically''
                          | Some m \<Rightarrow>
                              if m = [] then js ''Unable to determine root cause automatically''
                              else m)),
                   (js ''category'', JStr (js ''automation_script_defect'')),
                   (js ''confidence'', JStr (js ''low'')),
                   (js ''evidence'',
                    JArr [JStr (case errorMessage t of
                                  None \<Rightarrow> js ''No error message available''
                                | Some m \<Rightarrow>
                                    if m = [] then js ''No error message available'' else m)]),
                   (js ''suggestedFix'',
                    JStr (js ''Review the test implementation and logs manually''))])
          ?failed"
    by (rule map_cong) (simp_all add: mapFailure_fallbackFailure)
  show ?thesis
    using m a k r
    by (simp add: handler_def respond_def analysisOf_def withStatus_def mappedFailures_fallback
          propOf_fallbackAnalysis orJson_def e)
qed

lemma failedLogin_summary:
  "summaryOf noJson [failedLogin, passedLogout] =
     JObj [(js ''total'', JNum (Finite 2)), (js ''passed'', JNum (Finite 1)),
           (js ''failed'', JNum (Finite 1)), (js ''skipped'', JNum (Finite 0)),
           (js ''duration'', JStr (js ''2.5s'')), (js ''passRate'', JNum (Finite 50))]"
  by (simp add: summaryOf_def withStatus_def lengthOf_def noJson_def failedLogin_def
        passedLogout_def js_def)

text \<open>A request with one failed and one passed test case, and a reply in prose.\<close>

theorem malformed_reply_falls_back_witness:
  "jsonParse noJson (jsonText (js ''Sorry, I cannot help.'')) = None \<and>
   handler noJson (Some (js ''key'')) (GatewayReply (Some (js ''Sorry, I cannot help.'')))
     (Request (js ''POST'') (Payload (Some [failedLogin, passedLogout]) None)) =
     Response 200
       (JObj [(js ''summary'',
               JObj [(js ''total'', JNum (Finite 2)), (js ''passed'', JNum (Finite 1)),
                     (js ''failed'', JNum (Finite 1)), (js ''skipped'', JNum (Finite 0)),
                     (js ''duration'', JStr (js ''2.5s'')),
                     (js ''passRate'', JNum (Finite 50))]),
              (js ''failures'',
               JArr [JObj [(js ''testCase'', testCaseJson failedLogin),
                           (js ''rootCause'', JStr (js ''Expected 5'')),
                           (js ''category'', JStr (js ''automation_script_defect'')),
                           (js ''confidence'', JStr (js ''low'')),
                           (js ''evidence'', JArr [JStr (js ''Expected 5'')]),
                           (js ''suggestedFix'',
                            JStr (js ''Review the test implementation and logs manually''))]]),
              (js ''patterns'', JArr []),
              (js ''recommendations'',
               JArr [JObj [(js ''priority'', JStr (js ''high'')),
                           (js ''title'', JStr (js ''Manual Review Required'')),
                           (js ''description'',
                            JStr (js ''AI analysis was unable to parse the failures completely. Manual review is recommended.'')),
                           (js ''actionItems'',
                            JArr [JStr (js ''Review each failure manually''),
                                  JStr (js ''Check test logs for more context'')])]])])"
proof -
  have r: "jsonParse noJson (jsonText (js ''Sorry, I cannot help.'')) = None"
    by (simp add: noJson_def)
  have m: "js ''POST'' \<noteq> js ''OPTIONS''" and k: "js ''key'' \<noteq> []"
    by (simp_all add: js_def)
  have w: "status failedLogin = Fail" "status passedLogout = Pass"
    by (simp_all add: failedLogin_def passedLogout_def)
  have f: "firstWithId [failedLogin] failedLogin = failedLogin"
    by (simp add: firstWithId_def)
  have e: "errorMessage failedLogin = Some (js ''Expected 5'')" "js ''Expected 5'' \<noteq> []"
    by (simp_all add: failedLogin_def js_def)
  show ?thesis
    using malformed_reply_falls_back [of "js ''POST''" "Some (js ''key'')" "js ''key''" noJson
        "Some (js ''Sorry, I cannot help.'')" "[failedLogin, passedLogout]" None]
      m k r
    by (simp add: w f e failedLogin_summary)
qed

end
